theory Spec2Isabelle
  imports Complex_Main "HOL-Library.AList" "HOL-Library.Log_Nat"
begin

section \<open>Python strings\<close>

text \<open>
  A Python \<open>str\<close> is a sequence of Unicode code points, and every string operation of
  the two scripts (\<open>replace\<close>, \<open>len\<close>, slicing, concatenation) counts code points.
  A string is therefore a list of code points; an ASCII literal is written with
  \<open>ascii\<close>, any other literal as the list of its code points in hexadecimal.
\<close>

type_synonym pystr = "nat list"

definition ascii :: "string \<Rightarrow> pystr" where
  "ascii s = map of_char s"

text \<open>
  \<open>s.replace(old, new)\<close>: the non-overlapping occurrences of \<open>old\<close> are replaced from
  left to right; with an empty \<open>old\<close>, \<open>new\<close> is put before every character and at the
  end.
\<close>

function replace :: "pystr \<Rightarrow> pystr \<Rightarrow> pystr \<Rightarrow> pystr" where
  "replace s old new =
     (if old = [] then new @ concat (map (\<lambda>c. c # new) s)
      else if s = [] then []
      else if take (length old) s = old then new @ replace (drop (length old) s) old new
      else hd s # replace (tl s) old new)"
  by pat_completeness auto
termination
  by (relation "measure (\<lambda>(s, old, new). length s)") auto

declare replace.simps [simp del]

subsection \<open>The literals of the collector\<close>

text \<open>The three suffix characters: U+770C (ken), U+90FD (to), U+5E9C (fu).\<close>

definition ken :: pystr where "ken = [0x770C]"
definition to :: pystr where "to = [0x90FD]"
definition fu :: pystr where "fu = [0x5E9C]"

text \<open>
  The expression \<open>prefecture.replace('ken', '').replace('to', '').replace('fu', '')\<close>
  occurs twice: in the name of a synthesized school and in the name of the file of a
  prefecture.
\<close>

definition normalized :: "pystr \<Rightarrow> pystr" where
  "normalized prefecture = replace (replace (replace prefecture ken []) to []) fu []"

definition tokyo_to :: pystr where "tokyo_to = [0x6771, 0x4EAC, 0x90FD]"
definition kyoto_fu :: pystr where "kyoto_fu = [0x4EAC, 0x90FD, 0x5E9C]"
definition hokkaido :: pystr where "hokkaido = [0x5317, 0x6D77, 0x9053]"

text \<open>\<open>str(n)\<close> for a Python integer: decimal digits, with a minus sign when negative.\<close>

function str_nat :: "nat \<Rightarrow> pystr" where
  "str_nat n = (if n < 10 then [48 + n] else str_nat (n div 10) @ [48 + n mod 10])"
  by pat_completeness auto
termination
  by (relation "measure id") auto

declare str_nat.simps [simp del]

definition str_int :: "int \<Rightarrow> pystr" where
  "str_int n = (if n < 0 then 45 # str_nat (nat (- n)) else str_nat (nat n))"

text \<open>The number a string of decimal digits denotes, read from the left.\<close>

definition read_digits :: "pystr \<Rightarrow> nat" where
  "read_digits ds = foldl (\<lambda>a c. 10 * a + (c - 48)) 0 ds"

section \<open>Exceptions, the outside world\<close>

text \<open>
  The exceptions the two scripts meet, all of them subclasses of \<open>Exception\<close>.
  \<open>RequestException\<close> stands for \<open>requests.exceptions.RequestException\<close> and its
  subclasses (\<open>HTTPError\<close>, \<open>ConnectionError\<close>, \<open>Timeout\<close>, ...), the only class the
  fetcher and the dispatcher catch; \<open>OtherException\<close> for any exception outside that
  hierarchy. The string is \<open>str(e)\<close>.
\<close>

datatype exn =
    RequestException pystr
  | ZeroDivisionError
  | OverflowError
  | AttributeError pystr
  | OtherException pystr

fun is_RequestException :: "exn \<Rightarrow> bool" where
  "is_RequestException (RequestException m) = True"
| "is_RequestException e = False"

fun exn_str :: "exn \<Rightarrow> pystr" where
  "exn_str (RequestException m) = m"
| "exn_str ZeroDivisionError = ascii ''division by zero''"
| "exn_str OverflowError = ascii ''integer division result too large for a float''"
| "exn_str (AttributeError m) = m"
| "exn_str (OtherException m) = m"

text \<open>A value of \<open>datetime.now()\<close>, by the two renderings the scripts take of it.\<close>

record datetime =
  isoformat :: pystr
  timestamp :: rat

text \<open>
  A parsed JSON document, as \<open>response.json()\<close> returns it. An object is the Python
  \<open>dict\<close> after parsing: keys distinct, in insertion order.
\<close>

datatype json =
    JNull
  | JBool bool
  | JInt int
  | JFloat rat
  | JStr pystr
  | JArray "json list"
  | JObject "(pystr \<times> json) list"

text \<open>Python truthiness, as \<open>if data:\<close> tests it.\<close>

fun json_truthy :: "json \<Rightarrow> bool" where
  "json_truthy JNull = False"
| "json_truthy (JBool b) = b"
| "json_truthy (JInt n) = (n \<noteq> 0)"
| "json_truthy (JFloat x) = (x \<noteq> 0)"
| "json_truthy (JStr s) = (s \<noteq> [])"
| "json_truthy (JArray xs) = (xs \<noteq> [])"
| "json_truthy (JObject kvs) = (kvs \<noteq> [])"

text \<open>
  \<open>os.getenv\<close> returns \<open>None\<close> or a string; \<open>if not self.api_key\<close> holds for \<open>None\<close>
  and for the empty string.
\<close>

definition truthy :: "pystr option \<Rightarrow> bool" where
  "truthy v = (case v of None \<Rightarrow> False | Some s \<Rightarrow> s \<noteq> [])"

section \<open>The collector: data model\<close>

text \<open>The query \<open>params\<close> dictionary; \<open>None\<close> is an absent key.\<close>

record params =
  p_prefecture :: "pystr option"
  p_school_type :: "pystr option"
  p_include_details :: "bool option"

record academic_records =
  university_advancement_rate :: int
  notable_universities :: "pystr list"
  recent_achievements :: pystr

record entrance_exam_info =
  exam_date :: pystr
  subjects :: "pystr list"
  application_period :: pystr
  capacity :: int

record open_campus =
  dates :: "pystr list"
  programs :: "pystr list"
  registration_required :: bool

record contact_info =
  address :: pystr
  phone :: pystr
  website :: pystr
  email :: pystr

text \<open>One entry of \<open>schools\<close>; the field \<open>type\<close> of the source is \<open>school_type\<close> here.\<close>

record school =
  name :: pystr
  prefecture :: pystr
  school_type :: pystr
  hensachi :: int
  philosophy :: pystr
  academic :: academic_records
  entrance_exam :: entrance_exam_info
  campus :: open_campus
  official_images :: "pystr list"
  contact :: contact_info
  last_updated :: pystr

text \<open>
  The dictionary \<open>_generate_placeholder_data\<close> returns; its key \<open>prefecture\<close> is
  \<open>artifact_prefecture\<close> here.
\<close>

record artifact =
  artifact_prefecture :: pystr
  total_schools :: int
  schools :: "school list"
  collection_date :: pystr
  data_source :: pystr

text \<open>What the fetcher hands on: the synthesized dictionary or the parsed response.\<close>

datatype data = Placeholder artifact | Live json

fun data_truthy :: "data \<Rightarrow> bool" where
  "data_truthy (Placeholder a) = True"
| "data_truthy (Live j) = json_truthy j"

record get_request =
  get_url :: pystr
  get_headers :: "(pystr \<times> pystr) list"
  get_params :: params
  get_timeout :: int

text \<open>The JSON body of the webhook call; \<open>text\<close> of the source is \<open>attachment_text\<close> here.\<close>

record slack_attachment =
  color :: pystr
  attachment_text :: pystr
  ts :: rat

record slack_payload =
  channel :: pystr
  username :: pystr
  icon_emoji :: pystr
  attachments :: "slack_attachment list"

record post_request =
  post_url :: pystr
  post_json :: slack_payload
  post_timeout :: int

datatype http_request = Get get_request | Post post_request

record response =
  status_code :: nat
  http_error_message :: pystr
  json_body :: "exn + json"

record collector =
  api_key :: "pystr option"
  base_url :: pystr
  output_dir :: pystr
  prefectures :: "pystr list"

datatype level = INFO | WARNING | ERROR

text \<open>
  What becomes of \<open>with open(path, 'w') as f: json.dump(.., f)\<close>: the file is written;
  or \<open>open\<close> raises and the file is untouched; or \<open>json.dump\<close> raises after \<open>open\<close> has
  truncated the file, which is left with part of the document.
\<close>

datatype write_outcome = Written | OpenFailed exn | DumpFailed exn

text \<open>
  The behaviour of everything outside the process, fixed for a run: the string hash of
  the interpreter, the clock by the number of the reading, the answer of the network by
  the number of the request (an exception raised or a response), the outcome of a write
  by the number of the attempt, and \<open>str\<close> on a parsed JSON value.
\<close>

record env =
  hash :: "pystr \<Rightarrow> int"
  now :: "nat \<Rightarrow> datetime"
  http :: "nat \<Rightarrow> http_request \<Rightarrow> exn + response"
  file_write :: "nat \<Rightarrow> pystr \<Rightarrow> write_outcome"
  str_json :: "json \<Rightarrow> pystr"

text \<open>
  What a file under the output directory holds; \<open>PartialFile\<close> is a file truncated by
  \<open>open\<close> whose document was not written to the end.
\<close>

record summary =
  summary_collection_date :: pystr
  total_prefectures :: int
  successful_collections :: int
  failed_collections :: int
  success_rate :: pystr
  results :: "(pystr \<times> bool) list"
  output_directory :: pystr
  api_status :: pystr

datatype file_content = ArtifactFile data | SummaryFile summary | PartialFile

text \<open>The state a run changes: log, clock readings, requests sent, files, pauses.\<close>

record world =
  log_sink :: "(level \<times> pystr) list"
  clock_reads :: nat
  http_calls :: "http_request list"
  files :: "(pystr \<times> file_content) list"
  write_attempts :: nat
  sleeps :: "int list"

definition logger :: "level \<Rightarrow> pystr \<Rightarrow> world \<Rightarrow> world" where
  "logger l m w = w\<lparr>log_sink := log_sink w @ [(l, m)]\<rparr>"

text \<open>
  \<open>DeepResearchCollector.__init__\<close>: the credential and the base URL from the process
  environment \<open>getenv\<close>, the fixed output directory, the fixed list of the 47
  prefectures in the order of the source. (The creation of the output directory is
  not part of the model.)
\<close>

definition japan_prefectures :: "pystr list" where
  "japan_prefectures =
      [0x5317, 0x6D77, 0x9053] # [0x9752, 0x68EE, 0x770C] # [0x5CA9, 0x624B, 0x770C] # [0x5BAE, 0x57CE, 0x770C]
      # [0x79CB, 0x7530, 0x770C] # [0x5C71, 0x5F62, 0x770C] # [0x798F, 0x5CF6, 0x770C] # [0x8328, 0x57CE, 0x770C]
      # [0x6803, 0x6728, 0x770C] # [0x7FA4, 0x99AC, 0x770C] # [0x57FC, 0x7389, 0x770C] # [0x5343, 0x8449, 0x770C]
      # [0x6771, 0x4EAC, 0x90FD] # [0x795E, 0x5948, 0x5DDD, 0x770C] # [0x65B0, 0x6F5F, 0x770C] # [0x5BCC, 0x5C71, 0x770C]
      # [0x77F3, 0x5DDD, 0x770C] # [0x798F, 0x4E95, 0x770C] # [0x5C71, 0x68A8, 0x770C] # [0x9577, 0x91CE, 0x770C]
      # [0x5C90, 0x961C, 0x770C] # [0x9759, 0x5CA1, 0x770C] # [0x611B, 0x77E5, 0x770C] # [0x4E09, 0x91CD, 0x770C]
      # [0x6ECB, 0x8CC0, 0x770C] # [0x4EAC, 0x90FD, 0x5E9C] # [0x5927, 0x962A, 0x5E9C] # [0x5175, 0x5EAB, 0x770C]
      # [0x5948, 0x826F, 0x770C] # [0x548C, 0x6B4C, 0x5C71, 0x770C] # [0x9CE5, 0x53D6, 0x770C] # [0x5CF6, 0x6839, 0x770C]
      # [0x5CA1, 0x5C71, 0x770C] # [0x5E83, 0x5CF6, 0x770C] # [0x5C71, 0x53E3, 0x770C] # [0x5FB3, 0x5CF6, 0x770C]
      # [0x9999, 0x5DDD, 0x770C] # [0x611B, 0x5A9B, 0x770C] # [0x9AD8, 0x77E5, 0x770C] # [0x798F, 0x5CA1, 0x770C]
      # [0x4F50, 0x8CC0, 0x770C] # [0x9577, 0x5D0E, 0x770C] # [0x718A, 0x672C, 0x770C] # [0x5927, 0x5206, 0x770C]
      # [0x5BAE, 0x5D0E, 0x770C] # [0x9E7F, 0x5150, 0x5CF6, 0x770C] # [0x6C96, 0x7E04, 0x770C]
      # []"

definition init_collector :: "(string \<Rightarrow> pystr option) \<Rightarrow> collector" where
  "init_collector getenv =
     \<lparr>api_key = getenv ''DEEPRESEARCH_API_KEY'',
      base_url = (case getenv ''DEEPRESEARCH_BASE_URL'' of
                    None \<Rightarrow> ascii ''https://api.deepresearch.com/v1'' | Some u \<Rightarrow> u),
      output_dir = ascii ''db/schools'',
      prefectures = japan_prefectures\<rparr>"

section \<open>The placeholder synthesizer\<close>

text \<open>The three category tags: U+770C U+7ACB, U+79C1 U+7ACB, U+56FD U+7ACB.\<close>

definition kenritsu :: pystr where "kenritsu = [0x770C, 0x7ACB]"
definition shiritsu :: pystr where "shiritsu = [0x79C1, 0x7ACB]"
definition kokuritsu :: pystr where "kokuritsu = [0x56FD, 0x7ACB]"

definition school_types :: "pystr list" where
  "school_types = kenritsu # shiritsu # kokuritsu # []"

text \<open>The suffix U+9AD8 U+7B49 U+5B66 U+6821 (kotogakko, high school).\<close>

definition kotogakko :: pystr where
  "kotogakko = [0x9AD8, 0x7B49, 0x5B66, 0x6821]"

definition school_name :: "pystr \<Rightarrow> nat \<Rightarrow> pystr" where
  "school_name pref i = normalized pref @ school_types ! (i mod 3) @ [65 + i] @ kotogakko"

definition philosophy_text :: pystr where
  "philosophy_text =
     [0x306F, 0x3001, 0x751F, 0x5F92, 0x4E00, 0x4EBA, 0x3072, 0x3068, 0x308A, 0x306E, 0x500B,
      0x6027, 0x3092, 0x5927, 0x5207, 0x306B, 0x3057, 0x3001, 0x78BA, 0x304B, 0x306A, 0x5B66,
      0x529B, 0x3068, 0x8C4A, 0x304B, 0x306A, 0x4EBA, 0x9593, 0x6027, 0x3092, 0x80B2, 0x3080,
      0x6559, 0x80B2, 0x3092, 0x5B9F, 0x8DF5, 0x3057, 0x3066, 0x3044, 0x307E, 0x3059, 0x3002]"

definition reiwa :: pystr where "reiwa = [0x4EE4, 0x548C]"
definition nen :: pystr where "nen = [0x5E74]"
definition gatsu :: pystr where "gatsu = [0x6708]"
definition nichi :: pystr where "nichi = [0x65E5]"
definition mei :: pystr where "mei = [0x540D]"

definition academic_of :: "nat \<Rightarrow> academic_records" where
  "academic_of i =
     \<lparr>university_advancement_rate = 85 + int i * 2,
      notable_universities =
        [0x6771, 0x4EAC, 0x5927, 0x5B66] # [0x65E9, 0x7A32, 0x7530, 0x5927, 0x5B66]
        # [0x6176, 0x61C9, 0x7FA9, 0x587E, 0x5927, 0x5B66] # [0x660E, 0x6CBB, 0x5927, 0x5B66] # [],
      recent_achievements =
        reiwa @ str_int (4 + int i)
        @ [0x5E74, 0x5EA6, 0x5927, 0x5B66, 0x5408, 0x683C, 0x5B9F, 0x7E3E, 0x3A, 0x20,
           0x56FD, 0x516C, 0x7ACB, 0x5927, 0x5B66]
        @ str_int (20 + int i * 3) @ [0x540D, 0x3001, 0x79C1, 0x7ACB, 0x5927, 0x5B66]
        @ str_int (50 + int i * 10) @ mei\<rparr>"

definition entrance_exam_of :: "nat \<Rightarrow> entrance_exam_info" where
  "entrance_exam_of i =
     \<lparr>exam_date =
        reiwa @ ascii ''6'' @ nen @ str_int (2 + int i) @ gatsu @ str_int (10 + int i) @ nichi,
      subjects =
        [0x56FD, 0x8A9E] # [0x6570, 0x5B66] # [0x82F1, 0x8A9E] # [0x7406, 0x79D1]
        # [0x793E, 0x4F1A] # [],
      application_period =
        reiwa @ ascii ''5'' @ nen @ ascii ''12'' @ gatsu @ str_int (1 + int i)
        @ nichi @ [0xFF5E] @ ascii ''12'' @ gatsu @ str_int (15 + int i) @ nichi,
      capacity = 200 + int i * 40\<rparr>"

definition open_campus_of :: "nat \<Rightarrow> open_campus" where
  "open_campus_of i =
     \<lparr>dates =
        [reiwa @ ascii ''5'' @ nen @ str_int (7 + int i) @ gatsu @ str_int (15 + int i * 2) @ nichi,
         reiwa @ ascii ''5'' @ nen @ str_int (8 + int i) @ gatsu @ str_int (20 + int i * 3) @ nichi],
      programs =
        [0x5B66, 0x6821, 0x8AAC, 0x660E, 0x4F1A] # [0x6388, 0x696D, 0x4F53, 0x9A13]
        # [0x90E8, 0x6D3B, 0x52D5, 0x898B, 0x5B66] # [0x500B, 0x5225, 0x76F8, 0x8AC7] # [],
      registration_required = True\<rparr>"

definition contact_of :: "pystr \<Rightarrow> pystr \<Rightarrow> nat \<Rightarrow> contact_info" where
  "contact_of pref nm i =
     \<lparr>address = pref @ [0x25CB, 0x25CB, 0x5E02, 0x25CB, 0x25CB, 0x753A] @ ascii ''1-2-3'',
      phone =
        ascii ''0'' @ str_int (3 + int i) @ ascii ''-'' @ str_int (1000 + int i * 100)
        @ ascii ''-'' @ str_int (2000 + int i * 200),
      website = ascii ''https://www.'' @ replace nm kotogakko [] @ ascii ''.ed.jp'',
      email = ascii ''info@'' @ replace nm kotogakko [] @ ascii ''.ed.jp''\<rparr>"

text \<open>
  The body of the loop of \<open>_generate_placeholder_data\<close> for the index \<open>i\<close>; \<open>t\<close> is the
  reading of the clock that iteration takes. Python's \<open>%\<close> with a positive divisor
  gives a result from 0 to the divisor less one, as \<open>mod\<close> on \<open>int\<close> does.
\<close>

definition school_data :: "env \<Rightarrow> pystr \<Rightarrow> nat \<Rightarrow> datetime \<Rightarrow> school" where
  "school_data e pref i t =
     (let nm = school_name pref i in
      \<lparr>name = nm,
       prefecture = pref,
       school_type = school_types ! (i mod 3),
       hensachi = 50 + int i * 5 + hash e nm mod 20,
       philosophy = nm @ philosophy_text,
       academic = academic_of i,
       entrance_exam = entrance_exam_of i,
       campus = open_campus_of i,
       official_images =
         [ascii ''https://example.com/schools/'' @ pref @ ascii ''/'' @ nm @ ascii ''/main.jpg'',
          ascii ''https://example.com/schools/'' @ pref @ ascii ''/'' @ nm @ ascii ''/campus.jpg'',
          ascii ''https://example.com/schools/'' @ pref @ ascii ''/'' @ nm @ ascii ''/facilities.jpg''],
       contact = contact_of pref nm i,
       last_updated = isoformat t\<rparr>)"

text \<open>
  \<open>_generate_placeholder_data\<close>: five iterations, each reading the clock once, then the
  reading for \<open>collection_date\<close>.
\<close>

definition generate_placeholder_data :: "env \<Rightarrow> collector \<Rightarrow> params \<Rightarrow> world \<Rightarrow> artifact \<times> world" where
  "generate_placeholder_data e c ps w =
     (let pref = (case p_prefecture ps of None \<Rightarrow> tokyo_to | Some p \<Rightarrow> p);
          ss = map (\<lambda>i. school_data e pref i (now e (clock_reads w + i))) [0..<5]
      in (\<lparr>artifact_prefecture = pref,
           total_schools = int (length ss),
           schools = ss,
           collection_date = isoformat (now e (clock_reads w + 5)),
           data_source = (if \<not> truthy (api_key c) then ascii ''placeholder''
                          else ascii ''deepresearch_api'')\<rparr>,
          w\<lparr>clock_reads := clock_reads w + 6\<rparr>))"

definition collect_params :: "pystr \<Rightarrow> params" where
  "collect_params pref =
     \<lparr>p_prefecture = Some pref, p_school_type = Some (ascii ''high_school''),
      p_include_details = Some True\<rparr>"

section \<open>Floating point\<close>

text \<open>
  A finite IEEE 754 double is a rational number. \<open>round_double\<close> is rounding to the
  nearest double, ties to even: 53 significant bits, and the fixed quantum \<open>2^-1074\<close>
  in the subnormal range. Results of magnitude \<open>2^1024\<close> and more are not doubles;
  \<open>py_true_div\<close> raises there, and the one product the collector forms is at most 100.
\<close>

definition pow2 :: "int \<Rightarrow> rat" where
  "pow2 k = (if 0 \<le> k then 2 ^ nat k else 1 / 2 ^ nat (- k))"

definition round_half_even :: "rat \<Rightarrow> int" where
  "round_half_even x =
     (let f = \<lfloor>x\<rfloor>; d = x - of_int f
      in if d < 1 / 2 then f else if 1 / 2 < d then f + 1 else if even f then f else f + 1)"

text \<open>For \<open>x > 0\<close>, the \<open>k\<close> with \<open>2^k \<le> x < 2^(k+1)\<close>.\<close>

definition ilog2 :: "rat \<Rightarrow> int" where
  "ilog2 x = (let (a, b) = quotient_of x; d = bitlen a - bitlen b
              in if pow2 d \<le> x then d else d - 1)"

definition round_double :: "rat \<Rightarrow> rat" where
  "round_double x =
     (if x = 0 then 0
      else let q = pow2 (max (ilog2 \<bar>x\<bar> - 52) (- 1074))
           in of_int (round_half_even (x / q)) * q)"

text \<open>
  \<open>a / b\<close> on two Python integers: the correctly rounded quotient, \<open>ZeroDivisionError\<close>
  for a zero divisor, \<open>OverflowError\<close> when the result is too large for a double.
\<close>

definition py_true_div :: "int \<Rightarrow> int \<Rightarrow> exn + rat" where
  "py_true_div a b =
     (if b = 0 then Inl ZeroDivisionError
      else let x = round_double (of_int a / of_int b)
           in if pow2 1024 \<le> \<bar>x\<bar> then Inl OverflowError else Inr x)"

definition float_mul :: "rat \<Rightarrow> rat \<Rightarrow> rat" where
  "float_mul x y = round_double (x * y)"

text \<open>
  The format \<open>:.1f\<close>: the exact value of the double, rounded to one decimal place,
  ties to even.
\<close>

definition format_1f :: "rat \<Rightarrow> pystr" where
  "format_1f x =
     (let n = round_half_even (\<bar>x\<bar> * 10)
      in (if x < 0 then ascii ''-'' else []) @ str_int (n div 10) @ ascii ''.'' @ str_int (n mod 10))"

section \<open>The collector: fetching, saving, the loop, the summary\<close>

text \<open>\<open>response.raise_for_status()\<close> of the requests library: an \<open>HTTPError\<close> for 4xx and 5xx.\<close>

definition raise_for_status :: "response \<Rightarrow> exn option" where
  "raise_for_status r =
     (if 400 \<le> status_code r \<and> status_code r < 600
      then Some (RequestException (http_error_message r)) else None)"

definition no_api_key :: "world \<Rightarrow> world" where
  "no_api_key w =
     logger WARNING (ascii ''DeepResearch API key not found. Using placeholder data.'') w"

text \<open>
  The handler \<open>except requests.exceptions.RequestException\<close> of \<open>_make_api_request\<close>:
  an exception of that class is logged and turned into \<open>None\<close>, any other goes on to
  the caller.
\<close>

definition api_request_failed :: "exn \<Rightarrow> world \<Rightarrow> (exn + data option) \<times> world" where
  "api_request_failed ex w =
     (if is_RequestException ex
      then (Inr None, logger ERROR (ascii ''API request failed: '' @ exn_str ex) w)
      else (Inl ex, w))"

definition api_get_request :: "collector \<Rightarrow> pystr \<Rightarrow> params \<Rightarrow> http_request" where
  "api_get_request c endpoint ps =
     Get \<lparr>get_url = base_url c @ ascii ''/'' @ endpoint,
          get_headers =
            [(ascii ''Authorization'', ascii ''Bearer '' @ the (api_key c)),
             (ascii ''Content-Type'', ascii ''application/json'')],
          get_params = ps,
          get_timeout = 30\<rparr>"

text \<open>
  \<open>_make_api_request\<close>. The request, \<open>raise_for_status\<close> and \<open>json\<close> are inside the
  \<open>try\<close>. A response body \<open>null\<close> parses to \<open>None\<close>, which is what the caller then sees.
\<close>

definition make_api_request ::
  "env \<Rightarrow> collector \<Rightarrow> pystr \<Rightarrow> params \<Rightarrow> world \<Rightarrow> (exn + data option) \<times> world" where
  "make_api_request e c endpoint ps w =
     (if \<not> truthy (api_key c) then
        (let (a, w2) = generate_placeholder_data e c ps (no_api_key w)
         in (Inr (Some (Placeholder a)), w2))
      else
        (let req = api_get_request c endpoint ps;
             w1 = w\<lparr>http_calls := http_calls w @ [req]\<rparr>
         in case http e (length (http_calls w)) req of
              Inl ex \<Rightarrow> api_request_failed ex w1
            | Inr r \<Rightarrow>
                (case raise_for_status r of
                   Some ex \<Rightarrow> api_request_failed ex w1
                 | None \<Rightarrow>
                     (case json_body r of
                        Inl ex \<Rightarrow> api_request_failed ex w1
                      | Inr j \<Rightarrow> (Inr (if j = JNull then None else Some (Live j)), w1)))))"

definition opt_truthy :: "data option \<Rightarrow> bool" where
  "opt_truthy d = (case d of None \<Rightarrow> False | Some x \<Rightarrow> data_truthy x)"

text \<open>The message of the \<open>AttributeError\<close> for a value that is no dictionary.\<close>

definition no_attribute_get :: "string \<Rightarrow> pystr" where
  "no_attribute_get ty =
     [0x27] @ ascii ty @ [0x27] @ ascii '' object has no attribute '' @ [0x27] @ ascii ''get''
     @ [0x27]"

text \<open>
  \<open>data.get('total_schools', 0)\<close> inside the f-string of the success message: only a
  dictionary has \<open>get\<close>.
\<close>

fun total_schools_str :: "env \<Rightarrow> data \<Rightarrow> exn + pystr" where
  "total_schools_str e (Placeholder a) = Inr (str_int (total_schools a))"
| "total_schools_str e (Live (JObject kvs)) =
     Inr (case map_of kvs (ascii ''total_schools'') of
            None \<Rightarrow> str_int 0 | Some v \<Rightarrow> str_json e v)"
| "total_schools_str e (Live (JArray xs)) = Inl (AttributeError (no_attribute_get ''list''))"
| "total_schools_str e (Live (JStr s)) = Inl (AttributeError (no_attribute_get ''str''))"
| "total_schools_str e (Live (JInt n)) = Inl (AttributeError (no_attribute_get ''int''))"
| "total_schools_str e (Live (JFloat x)) = Inl (AttributeError (no_attribute_get ''float''))"
| "total_schools_str e (Live (JBool b)) = Inl (AttributeError (no_attribute_get ''bool''))"
| "total_schools_str e (Live JNull) = Inl (AttributeError (no_attribute_get ''NoneType''))"

definition collecting :: "pystr \<Rightarrow> world \<Rightarrow> world" where
  "collecting pref w = logger INFO (ascii ''Collecting data for '' @ pref @ ascii ''...'') w"

definition collect_prefecture_data ::
  "env \<Rightarrow> collector \<Rightarrow> pystr \<Rightarrow> world \<Rightarrow> (exn + data option) \<times> world" where
  "collect_prefecture_data e c pref w =
     (let (r, w2) = make_api_request e c (ascii ''schools/search'') (collect_params pref)
                      (collecting pref w)
      in case r of
           Inl ex \<Rightarrow> (Inl ex, w2)
         | Inr d \<Rightarrow>
             if opt_truthy d then
               (case total_schools_str e (the d) of
                  Inl ex \<Rightarrow> (Inl ex, w2)
                | Inr n \<Rightarrow>
                    (Inr d, logger INFO (ascii ''Successfully collected data for '' @ pref
                                         @ ascii '': '' @ n @ ascii '' schools'') w2))
             else (Inr d, logger ERROR (ascii ''Failed to collect data for '' @ pref) w2))"

text \<open>
  \<open>self.output_dir / filename\<close> and its \<open>str\<close>, as \<open>pathlib\<close> does it on POSIX: both
  operands are cut at the slashes, empty segments and \<open>.\<close> are dropped (\<open>..\<close> is kept);
  a right operand that begins with a slash replaces the left one; exactly two leading
  slashes are kept as they are, three or more are one; the path without root and
  without segments is \<open>.\<close>.
\<close>

fun split_slash :: "pystr \<Rightarrow> pystr list" where
  "split_slash [] = [] # []"
| "split_slash (c # cs) =
     (if c = 0x2F then [] # split_slash cs
      else case split_slash cs of
             [] \<Rightarrow> (c # []) # []
           | seg # segs \<Rightarrow> (c # seg) # segs)"

definition path_parts :: "pystr \<Rightarrow> pystr list" where
  "path_parts s = filter (\<lambda>seg. seg \<noteq> [] \<and> seg \<noteq> ascii ''.'') (split_slash s)"

definition path_root :: "pystr \<Rightarrow> pystr" where
  "path_root s =
     (if take 2 s = ascii ''//'' \<and> take 3 s \<noteq> ascii ''///'' then ascii ''//''
      else if take 1 s = ascii ''/'' then ascii ''/''
      else [])"

fun join_slash :: "pystr list \<Rightarrow> pystr" where
  "join_slash [] = []"
| "join_slash (seg # []) = seg"
| "join_slash (seg # segs) = seg @ ascii ''/'' @ join_slash segs"

definition path_join :: "pystr \<Rightarrow> pystr \<Rightarrow> pystr" where
  "path_join d f =
     (let r = (if path_root f \<noteq> [] then path_root f else path_root d);
          parts = (if path_root f \<noteq> [] then path_parts f else path_parts d @ path_parts f)
      in if r = [] \<and> parts = [] then ascii ''.'' else r @ join_slash parts)"

definition artifact_filename :: "pystr \<Rightarrow> pystr" where
  "artifact_filename pref = normalized pref @ ascii ''_schools.json''"

text \<open>
  \<open>save_prefecture_data\<close>: whatever the write raises is caught by \<open>except Exception\<close>
  and becomes \<open>False\<close>.
\<close>

definition save_prefecture_data ::
  "env \<Rightarrow> collector \<Rightarrow> pystr \<Rightarrow> data \<Rightarrow> world \<Rightarrow> bool \<times> world" where
  "save_prefecture_data e c pref d w =
     (let filepath = path_join (output_dir c) (artifact_filename pref);
          w1 = w\<lparr>write_attempts := write_attempts w + 1\<rparr>
      in case file_write e (write_attempts w) filepath of
           Written \<Rightarrow>
             (True, logger INFO (ascii ''Saved data for '' @ pref @ ascii '' to '' @ filepath)
                      (w1\<lparr>files := AList.update filepath (ArtifactFile d) (files w1)\<rparr>))
         | OpenFailed ex \<Rightarrow>
             (False, logger ERROR (ascii ''Failed to save data for '' @ pref @ ascii '': ''
                                   @ exn_str ex) w1)
         | DumpFailed ex \<Rightarrow>
             (False, logger ERROR (ascii ''Failed to save data for '' @ pref @ ascii '': ''
                                   @ exn_str ex)
                       (w1\<lparr>files := AList.update filepath PartialFile (files w1)\<rparr>)))"

text \<open>
  The body of the loop of \<open>collect_all_prefectures\<close> for one prefecture \<open>p\<close>; \<open>i\<close> is
  the counter of \<open>enumerate(.., 1)\<close>, \<open>tot\<close> the \<open>total_prefectures\<close> of the source.
  The dictionary \<open>results\<close> is an association list in insertion order: an assignment
  to a present key keeps its place, to a new key appends. The pause is inside the
  \<open>try\<close>, after the assignment.
\<close>

definition processing :: "pystr \<Rightarrow> int \<Rightarrow> int \<Rightarrow> world \<Rightarrow> world" where
  "processing p i tot w =
     logger INFO (ascii ''Processing '' @ p @ ascii '' ('' @ str_int i @ ascii ''/''
                  @ str_int tot @ ascii '')'') w"

definition process_prefecture ::
  "env \<Rightarrow> collector \<Rightarrow> int \<Rightarrow> int \<Rightarrow> pystr \<Rightarrow> (pystr \<times> bool) list \<Rightarrow> world
   \<Rightarrow> (pystr \<times> bool) list \<times> world" where
  "process_prefecture e c tot i p rs w =
     (let (r, w2) = collect_prefecture_data e c p (processing p i tot w)
      in case r of
           Inl ex \<Rightarrow>
             (AList.update p False rs,
              logger ERROR (ascii ''Error processing '' @ p @ ascii '': '' @ exn_str ex) w2)
         | Inr d \<Rightarrow>
             (let (rs', w3) =
                    (if opt_truthy d then
                       (let (success, w') = save_prefecture_data e c p (the d) w2
                        in (AList.update p success rs, w'))
                     else (AList.update p False rs, w2))
              in (rs', if i < tot then w3\<lparr>sleeps := sleeps w3 @ [1]\<rparr> else w3)))"

fun collect_loop ::
  "env \<Rightarrow> collector \<Rightarrow> int \<Rightarrow> int \<Rightarrow> pystr list \<Rightarrow> (pystr \<times> bool) list \<Rightarrow> world
   \<Rightarrow> (pystr \<times> bool) list \<times> world" where
  "collect_loop e c tot i [] rs w = (rs, w)"
| "collect_loop e c tot i (p # ps) rs w =
     (let (rs', w') = process_prefecture e c tot i p rs w
      in collect_loop e c tot (i + 1) ps rs' w')"

definition collect_all_prefectures ::
  "env \<Rightarrow> collector \<Rightarrow> world \<Rightarrow> (pystr \<times> bool) list \<times> world" where
  "collect_all_prefectures e c w =
     (let tot = int (length (prefectures c));
          w1 = logger INFO (ascii ''Starting data collection for '' @ str_int tot
                            @ ascii '' prefectures...'') w
      in collect_loop e c tot 1 (prefectures c) [] w1)"

text \<open>The expression \<open>f"{(successful/total)*100:.1f}%"\<close>.\<close>

definition format_success_rate :: "int \<Rightarrow> int \<Rightarrow> exn + pystr" where
  "format_success_rate successful tot =
     (case py_true_div successful tot of
        Inl ex \<Rightarrow> Inl ex
      | Inr q \<Rightarrow> Inr (format_1f (float_mul q 100) @ ascii ''%''))"

text \<open>
  The dictionary \<open>summary\<close> of \<open>generate_summary_report\<close>, built in the order of its
  keys: the clock is read (\<open>t\<close>) before the division is tried.
\<close>

definition build_summary :: "collector \<Rightarrow> (pystr \<times> bool) list \<Rightarrow> datetime \<Rightarrow> exn + summary" where
  "build_summary c rs t =
     (let successful = int (length (filter (\<lambda>success. success) (map snd rs)));
          tot = int (length rs)
      in case format_success_rate successful tot of
           Inl ex \<Rightarrow> Inl ex
         | Inr rate \<Rightarrow>
             Inr \<lparr>summary_collection_date = isoformat t,
                  total_prefectures = tot,
                  successful_collections = successful,
                  failed_collections = tot - successful,
                  success_rate = rate,
                  results = rs,
                  output_directory = output_dir c,
                  api_status = (if truthy (api_key c) then ascii ''connected''
                                else ascii ''placeholder_mode'')\<rparr>)"

text \<open>
  \<open>generate_summary_report\<close> has no handler: the exception of the division and that of
  the write leave it.
\<close>

definition generate_summary_report ::
  "env \<Rightarrow> collector \<Rightarrow> (pystr \<times> bool) list \<Rightarrow> world \<Rightarrow> (exn + unit) \<times> world" where
  "generate_summary_report e c rs w =
     (let w1 = w\<lparr>clock_reads := clock_reads w + 1\<rparr>
      in case build_summary c rs (now e (clock_reads w)) of
           Inl ex \<Rightarrow> (Inl ex, w1)
         | Inr s \<Rightarrow>
             (let summary_path = path_join (output_dir c) (ascii ''collection_summary.json'');
                  w2 = w1\<lparr>write_attempts := write_attempts w1 + 1\<rparr>
              in case file_write e (write_attempts w1) summary_path of
                   OpenFailed ex \<Rightarrow> (Inl ex, w2)
                 | DumpFailed ex \<Rightarrow>
                     (Inl ex, w2\<lparr>files := AList.update summary_path PartialFile (files w2)\<rparr>)
                 | Written \<Rightarrow>
                     (Inr (),
                      logger INFO (ascii ''  Summary saved to: '' @ summary_path)
                       (logger INFO (ascii ''  Success rate: '' @ success_rate s)
                         (logger INFO (ascii ''  Failed: '' @ str_int (failed_collections s))
                           (logger INFO (ascii ''  Successful: ''
                                         @ str_int (successful_collections s))
                             (logger INFO (ascii ''  Total prefectures: ''
                                           @ str_int (total_prefectures s))
                               (logger INFO (ascii ''Collection Summary:'')
                                 (w2\<lparr>files := AList.update summary_path (SummaryFile s)
                                                 (files w2)\<rparr>)))))))))"

section \<open>The notifier\<close>

text \<open>The fields of \<open>SlackNotifier\<close>; \<open>self.channel\<close> is \<open>notifier_channel\<close> here.\<close>

record notifier =
  webhook_url :: "pystr option"
  notifier_channel :: pystr
  bot_name :: pystr
  bot_icon :: pystr

text \<open>
  The handler \<open>except requests.exceptions.RequestException\<close> of \<open>_send_slack_message\<close>.
\<close>

definition slack_failed :: "exn \<Rightarrow> world \<Rightarrow> (exn + bool) \<times> world" where
  "slack_failed ex w =
     (if is_RequestException ex
      then (Inr False, logger ERROR (ascii ''Failed to send Slack notification: '' @ exn_str ex) w)
      else (Inl ex, w))"

definition slack_post_request :: "notifier \<Rightarrow> pystr \<Rightarrow> pystr \<Rightarrow> datetime \<Rightarrow> http_request" where
  "slack_post_request n message col t =
     Post \<lparr>post_url = the (webhook_url n),
           post_json =
             \<lparr>channel = notifier_channel n,
              username = bot_name n,
              icon_emoji = bot_icon n,
              attachments = [\<lparr>color = col, attachment_text = message, ts = timestamp t\<rparr>]\<rparr>,
           post_timeout = 10\<rparr>"

definition send_slack_message ::
  "env \<Rightarrow> notifier \<Rightarrow> pystr \<Rightarrow> pystr \<Rightarrow> world \<Rightarrow> (exn + bool) \<times> world" where
  "send_slack_message e n message col w =
     (if \<not> truthy (webhook_url n)
      then (Inr True, logger INFO (ascii ''[SLACK NOTIFICATION] '' @ message) w)
      else
        (let req = slack_post_request n message col (now e (clock_reads w));
             w1 = w\<lparr>clock_reads := clock_reads w + 1, http_calls := http_calls w @ [req]\<rparr>
         in case http e (length (http_calls w)) req of
              Inl ex \<Rightarrow> slack_failed ex w1
            | Inr r \<Rightarrow>
                (case raise_for_status r of
                   Some ex \<Rightarrow> slack_failed ex w1
                 | None \<Rightarrow>
                     (Inr True,
                      logger INFO (ascii ''Slack notification sent successfully: ''
                                   @ take 100 message @ ascii ''...'') w1))))"

text \<open>
  The dictionary \<open>notify_deepresearch_completion\<close> receives, by the keys it reads and
  the types the summary file gives them; \<open>None\<close> is an absent key.
\<close>

record completion_results =
  r_success_rate :: "pystr option"
  r_total_prefectures :: "int option"
  r_successful_collections :: "int option"
  r_failed_collections :: "int option"
  r_collection_date :: "pystr option"
  r_api_status :: "pystr option"

text \<open>
  \<open>"success" if failed == 0 else "warning" if failed < total_prefectures / 2 else "error"\<close>:
  the quotient is a float, which Python compares with the integer exactly.
\<close>

definition completion_status :: "int \<Rightarrow> int \<Rightarrow> exn + pystr" where
  "completion_status failed tot =
     (if failed = 0 then Inr (ascii ''success'')
      else case py_true_div tot 2 of
             Inl ex \<Rightarrow> Inl ex
           | Inr half \<Rightarrow>
               if of_int failed < half then Inr (ascii ''warning'') else Inr (ascii ''error''))"

definition completion_color :: "pystr \<Rightarrow> pystr" where
  "completion_color status =
     (if status = ascii ''success'' then ascii ''good''
      else if status = ascii ''warning'' then ascii ''warning''
      else ascii ''danger'')"

definition bullet :: pystr where "bullet = [0xA, 0x2022]"

definition completion_message ::
  "pystr \<Rightarrow> int \<Rightarrow> int \<Rightarrow> int \<Rightarrow> pystr \<Rightarrow> pystr \<Rightarrow> pystr \<Rightarrow> pystr" where
  "completion_message status tot successful failed rate date source =
     ascii ''[Devin Update] Task: DeepResearch Data Collection | Status: '' @ status
     @ ascii '' | Details:'' @ [0xA, 0xA, 0x1F3EB]
     @ ascii '' **School Data Collection Completed**''
     @ bullet @ ascii '' **Total Prefectures**: '' @ str_int tot
     @ bullet @ ascii '' **Successful**: '' @ str_int successful
     @ bullet @ ascii '' **Failed**: '' @ str_int failed
     @ bullet @ ascii '' **Success Rate**: '' @ rate
     @ bullet @ ascii '' **Collection Time**: '' @ date
     @ bullet @ ascii '' **Data Source**: '' @ source
     @ [0xA, 0xA, 0x1F4CA]
     @ ascii '' **Summary**: Collected school data for all Japanese prefectures including ''
     @ [0x504F, 0x5DEE, 0x5024] @ ascii '', '' @ [0x5B66, 0x662F] @ ascii '', ''
     @ [0x9032, 0x5B66, 0x5B9F, 0x7E3E] @ ascii '', '' @ [0x5165, 0x8A66, 0x60C5, 0x5831]
     @ ascii '', ''
     @ [0x30AA, 0x30FC, 0x30D7, 0x30F3, 0x30AD, 0x30E3, 0x30F3, 0x30D1, 0x30B9, 0x60C5, 0x5831]
     @ ascii '', and '' @ [0x516C, 0x5F0F, 0x753B, 0x50CF] @ ascii ''URL.''
     @ [0xA, 0xA, 0x1F4C1] @ ascii '' Data saved to: '' @ [0x60] @ ascii ''db/schools/''
     @ [0x60] @ ascii '' directory''"

definition notify_deepresearch_completion ::
  "env \<Rightarrow> notifier \<Rightarrow> completion_results \<Rightarrow> world \<Rightarrow> (exn + bool) \<times> world" where
  "notify_deepresearch_completion e n r w =
     (let rate = (case r_success_rate r of None \<Rightarrow> ascii ''0%'' | Some v \<Rightarrow> v);
          tot = (case r_total_prefectures r of None \<Rightarrow> 0 | Some v \<Rightarrow> v);
          successful = (case r_successful_collections r of None \<Rightarrow> 0 | Some v \<Rightarrow> v);
          failed = (case r_failed_collections r of None \<Rightarrow> 0 | Some v \<Rightarrow> v)
      in case completion_status failed tot of
           Inl ex \<Rightarrow> (Inl ex, w)
         | Inr status \<Rightarrow>
             send_slack_message e n
               (completion_message status tot successful failed rate
                  (case r_collection_date r of None \<Rightarrow> ascii ''Unknown'' | Some v \<Rightarrow> v)
                  (case r_api_status r of None \<Rightarrow> ascii ''Unknown'' | Some v \<Rightarrow> v))
               (completion_color status) w)"

section \<open>Sample runs\<close>

text \<open>
  Concrete surroundings for evaluating the definitions: a hash that sums the code points,
  a clock that counts, an API that times out, a disk that takes every write; then an
  API whose answer of status 200 has a body nested so deeply that \<open>response.json()\<close>
  raises \<open>RecursionError\<close>, an API that answers 200 with a JSON object, a network
  call that raises \<open>MemoryError\<close>, an API that answers 503, a disk that refuses every
  write.
\<close>

definition sample_env :: env where
  "sample_env =
     \<lparr>hash = (\<lambda>s. int (sum_list s)),
      now = (\<lambda>k. \<lparr>isoformat = str_nat k, timestamp = of_nat k\<rparr>),
      http = (\<lambda>k req. Inl (RequestException (ascii ''timed out''))),
      file_write = (\<lambda>k path. Written),
      str_json = (\<lambda>j. ascii ''?'')\<rparr>"

definition offline_collector :: collector where
  "offline_collector =
     \<lparr>api_key = None,
      base_url = ascii ''https://api.deepresearch.com/v1'',
      output_dir = ascii ''db/schools'',
      prefectures = [hokkaido, tokyo_to, kyoto_fu]\<rparr>"

definition online_collector :: collector where
  "online_collector = offline_collector\<lparr>api_key := Some (ascii ''secret'')\<rparr>"

definition deep_json_env :: env where
  "deep_json_env =
     sample_env\<lparr>http := (\<lambda>k req. Inr \<lparr>status_code = 200,
                                       http_error_message = [],
                                       json_body = Inl (OtherException
                                         (ascii ''maximum recursion depth exceeded''))\<rparr>)\<rparr>"

definition answering_env :: env where
  "answering_env =
     sample_env\<lparr>http := (\<lambda>k req. Inr \<lparr>status_code = 200,
                                       http_error_message = [],
                                       json_body = Inr (JObject [(ascii ''total_schools'',
                                                                  JInt 0)])\<rparr>)\<rparr>"

definition broken_post_env :: env where
  "broken_post_env =
     sample_env\<lparr>http := (\<lambda>k req. Inl (OtherException (ascii ''out of memory'')))\<rparr>"

definition unavailable_env :: env where
  "unavailable_env =
     sample_env\<lparr>http := (\<lambda>k req. Inr \<lparr>status_code = 503,
                                       http_error_message = ascii ''503 Server Error'',
                                       json_body = Inr JNull\<rparr>)\<rparr>"

definition readonly_env :: env where
  "readonly_env =
     sample_env\<lparr>file_write :=
                  (\<lambda>k path. OpenFailed (OtherException (ascii ''Permission denied'')))\<rparr>"

definition sample_notifier :: notifier where
  "sample_notifier =
     \<lparr>webhook_url = None,
      notifier_channel = ascii ''#devin-task'',
      bot_name = ascii ''Education Salon Bot'',
      bot_icon = ascii '':robot_face:''\<rparr>"

definition hooked_notifier :: notifier where
  "hooked_notifier = sample_notifier\<lparr>webhook_url := Some (ascii ''https://hooks.example/T0'')\<rparr>"

definition fresh_world :: world where
  "fresh_world =
     \<lparr>log_sink = [], clock_reads = 0, http_calls = [], files = [], write_attempts = 0,
      sleeps = []\<rparr>"

section \<open>Floating point: what the rounding guarantees\<close>

lemma pow2_powi: "pow2 k = 2 powi k"
  by (simp add: pow2_def power_int_def field_simps)

lemma pow2_pos: "0 < pow2 k"
  by (simp add: pow2_powi zero_less_power_int)

lemma pow2_mono: "a \<le> b \<Longrightarrow> pow2 a \<le> pow2 b"
  by (simp add: pow2_powi power_int_increasing)

lemma pow2_less_imp: "pow2 a < pow2 b \<Longrightarrow> a < b"
  using pow2_mono [of b a] by (cases "a < b") auto

lemma pow2_strict_mono: "a < b \<Longrightarrow> pow2 a < pow2 b"
  by (simp add: pow2_powi power_int_strict_increasing)

lemma pow2_le_imp: "pow2 a \<le> pow2 b \<Longrightarrow> a \<le> b"
  using pow2_strict_mono [of b a] by (cases "a \<le> b") auto

lemma pow2_add: "pow2 (a + b) = pow2 a * pow2 b"
  by (simp add: pow2_powi power_int_add)

lemma bitlen_powi:
  assumes "0 < a"
  shows "2 powi (bitlen a - 1) \<le> (of_int a :: rat)" and "(of_int a :: rat) < 2 powi (bitlen a)"
proof -
  have ge: "1 \<le> bitlen a"
    using assms bitlen_eq_zero_iff [of a] bitlen_nonneg [of a] by linarith
  have "(2::int) ^ nat (bitlen a - 1) \<le> a" and "a < 2 ^ nat (bitlen a)"
    using bitlen_bounds [OF assms] by auto
  then have "(of_int ((2::int) ^ nat (bitlen a - 1)) :: rat) \<le> of_int a"
    and "(of_int a :: rat) < of_int ((2::int) ^ nat (bitlen a))"
    by (simp_all only: of_int_le_iff of_int_less_iff)
  then show "2 powi (bitlen a - 1) \<le> (of_int a :: rat)"
    and "(of_int a :: rat) < 2 powi (bitlen a)"
    using ge by (simp_all add: power_int_def)
qed

lemma ilog2_bounds:
  assumes "0 < x"
  shows "pow2 (ilog2 x) \<le> x" and "x < pow2 (ilog2 x + 1)"
proof -
  obtain a b where ab: "quotient_of x = (a, b)" by (cases "quotient_of x")
  have b: "0 < b" using ab quotient_of_denom_pos by blast
  have x: "x = of_int a / of_int b" using ab by (rule quotient_of_div)
  have a: "0 < a" using assms b x by (simp add: zero_less_divide_iff)
  define d where "d = bitlen a - bitlen b"
  note la = bitlen_powi [OF a] and lb = bitlen_powi [OF b]
  have "pow2 (d - 1) = 2 powi (bitlen a - 1) / 2 powi (bitlen b)"
    using power_int_diff [of "2::rat" "bitlen a - 1" "bitlen b"]
    by (simp add: pow2_powi d_def algebra_simps)
  also have "\<dots> \<le> of_int a / of_int b"
    using la(1) lb(2) a b by (intro frac_le) auto
  finally have lo: "pow2 (d - 1) \<le> x" using x by simp
  have "x = of_int a / of_int b" by (rule x)
  also have "\<dots> < 2 powi (bitlen a) / 2 powi (bitlen b - 1)"
    using la(2) lb(1) a by (intro frac_less) auto
  also have "\<dots> = pow2 (d + 1)"
    using power_int_diff [of "2::rat" "bitlen a" "bitlen b - 1"]
    by (simp add: pow2_powi d_def algebra_simps)
  finally have hi: "x < pow2 (d + 1)" .
  have il: "ilog2 x = (if pow2 d \<le> x then d else d - 1)"
    by (simp add: ilog2_def ab d_def Let_def)
  show "pow2 (ilog2 x) \<le> x" using il lo by auto
  show "x < pow2 (ilog2 x + 1)" using il hi by auto
qed

lemma round_half_even_of_int: "round_half_even (of_int n) = n"
  by (simp add: round_half_even_def)

lemma round_half_even_le:
  assumes "x \<le> of_int n"
  shows "round_half_even x \<le> n"
proof -
  have f: "\<lfloor>x\<rfloor> \<le> n" using assms by (simp add: floor_le_iff)
  show ?thesis
  proof (cases "\<lfloor>x\<rfloor> = n")
    case True
    then have "x - of_int \<lfloor>x\<rfloor> \<le> 0" using assms by simp
    then show ?thesis using True by (simp add: round_half_even_def Let_def)
  next
    case False
    then have "\<lfloor>x\<rfloor> + 1 \<le> n" using f by simp
    then show ?thesis by (auto simp: round_half_even_def Let_def)
  qed
qed

lemma round_half_even_nonneg: "0 \<le> x \<Longrightarrow> 0 \<le> round_half_even x"
  by (auto simp: round_half_even_def Let_def)

lemma round_double_nonneg:
  assumes "0 \<le> x"
  shows "0 \<le> round_double x"
proof -
  have "0 \<le> round_half_even (x / pow2 k)" for k
    using assms pow2_pos [of k] by (intro round_half_even_nonneg) simp
  then have "0 \<le> of_int (round_half_even (x / pow2 k)) * pow2 k" for k
    using pow2_pos [of k] by (intro mult_nonneg_nonneg) simp_all
  then show ?thesis by (simp add: round_double_def Let_def)
qed

lemma round_double_unit:
  assumes "0 \<le> x" and "x \<le> 1"
  shows "0 \<le> round_double x" and "round_double x \<le> 1"
proof -
  show "0 \<le> round_double x"
    using assms(1) by (rule round_double_nonneg)
  show "round_double x \<le> 1"
  proof (cases "x = 0")
    case True
    then show ?thesis by (simp add: round_double_def)
  next
    case False
    then have pos: "0 < x" using assms(1) by simp
    define k where "k = max (ilog2 \<bar>x\<bar> - 52) (- 1074)"
    have "pow2 (ilog2 x) \<le> pow2 0"
      using ilog2_bounds(1) [OF pos] assms(2) by (simp add: pow2_def)
    then have "ilog2 x \<le> 0" by (rule pow2_le_imp)
    then have k: "k \<le> 0" using pos by (simp add: k_def)
    have q: "pow2 k = 1 / 2 ^ nat (- k)" using k by (auto simp: pow2_def)
    have "x / pow2 k \<le> of_int (2 ^ nat (- k))"
      using assms(2) by (simp add: q mult_le_cancel_right1)
    then have "round_half_even (x / pow2 k) \<le> 2 ^ nat (- k)"
      by (rule round_half_even_le)
    then have "(of_int (round_half_even (x / pow2 k)) :: rat) \<le> of_int (2 ^ nat (- k))"
      by (simp only: of_int_le_iff)
    then have "of_int (round_half_even (x / pow2 k)) * pow2 k \<le> 1"
      by (simp add: q pos_divide_le_eq)
    then show ?thesis using False by (simp add: round_double_def Let_def k_def)
  qed
qed

lemma round_double_half_exact:
  assumes "\<bar>n\<bar> < 2 ^ 53"
  shows "round_double (of_int n / 2) = of_int n / 2"
proof (cases "n = 0")
  case True
  then show ?thesis by (simp add: round_double_def)
next
  case False
  define x :: rat where "x = of_int n / 2"
  have nz: "x \<noteq> 0" using False by (simp add: x_def)
  then have pos: "0 < \<bar>x\<bar>" by simp
  define k where "k = max (ilog2 \<bar>x\<bar> - 52) (- 1074)"
  have "(of_int \<bar>n\<bar> :: rat) < of_int (2 ^ 53)" using assms by (simp only: of_int_less_iff)
  then have "\<bar>x\<bar> < pow2 52" by (simp add: x_def pow2_def)
  then have "pow2 (ilog2 \<bar>x\<bar>) < pow2 52"
    using ilog2_bounds(1) [OF pos] by simp
  then have "ilog2 \<bar>x\<bar> < 52" by (rule pow2_less_imp)
  then have k: "k \<le> - 1" by (simp add: k_def)
  define j where "j = nat (- k) - 1"
  have q: "pow2 k = 1 / 2 ^ Suc j" using k by (auto simp: pow2_def j_def)
  have "x / pow2 k = of_int (n * 2 ^ j)" by (simp add: q x_def)
  then have "round_half_even (x / pow2 k) = n * 2 ^ j"
    by (simp only: round_half_even_of_int)
  then have "of_int (round_half_even (x / pow2 k)) * pow2 k = x"
    by (simp add: q x_def)
  then show ?thesis using nz by (simp add: round_double_def Let_def k_def x_def)
qed

lemma py_true_div_unit:
  assumes "0 \<le> a" and "a \<le> b" and "0 < b"
  shows "py_true_div a b = Inr (round_double (of_int a / of_int b))"
proof -
  have "0 \<le> (of_int a :: rat) / of_int b" and "(of_int a :: rat) / of_int b \<le> 1"
    using assms by simp_all
  then have "0 \<le> round_double (of_int a / of_int b)" and "round_double (of_int a / of_int b) \<le> 1"
    by (rule round_double_unit)+
  moreover have "(1::rat) < pow2 1024" by (simp add: pow2_def)
  ultimately show ?thesis using assms(3) by (simp add: py_true_div_def Let_def)
qed

lemma py_true_div_half:
  assumes "\<bar>n\<bar> < 2 ^ 53"
  shows "py_true_div n 2 = Inr (of_int n / 2)"
proof -
  have "(of_int \<bar>n\<bar> :: rat) < of_int (2 ^ 53)" using assms by (simp only: of_int_less_iff)
  then have "\<bar>of_int n / 2 :: rat\<bar> < pow2 1024" by (simp add: pow2_def)
  then show ?thesis
    using round_double_half_exact [OF assms] by (simp add: py_true_div_def Let_def)
qed


lemma str_nat_digits: "str_nat n \<noteq> [] \<and> (\<forall>c \<in> set (str_nat n). 48 \<le> c \<and> c \<le> 57)"
proof (induction n rule: str_nat.induct)
  case (1 n)
  show ?case
  proof (cases "n < 10")
    case True
    then show ?thesis by (subst (1 2) str_nat.simps) simp
  next
    case False
    then show ?thesis using 1 by (subst (1 2) str_nat.simps) auto
  qed
qed

lemma str_nat_digit: "n < 10 \<Longrightarrow> str_nat n = [48 + n]"
  by (subst str_nat.simps) simp

lemma format_1f_shape:
  "\<exists>ds d. format_1f x = (if x < 0 then ascii ''-'' else []) @ ds @ ascii ''.'' @ [d]
     \<and> ds \<noteq> [] \<and> (\<forall>c \<in> set ds. 48 \<le> c \<and> c \<le> 57) \<and> 48 \<le> d \<and> d \<le> 57"
proof -
  define n where "n = round_half_even (\<bar>x\<bar> * 10)"
  have n: "0 \<le> n" unfolding n_def by (rule round_half_even_nonneg) simp
  then have hi: "str_int (n div 10) = str_nat (nat (n div 10))"
    by (simp add: str_int_def pos_imp_zdiv_neg_iff)
  have "nat (n mod 10) < 10" using n by simp
  then have lo: "str_int (n mod 10) = [48 + nat (n mod 10)]"
    by (simp add: str_int_def str_nat_digit)
  have "format_1f x = (if x < 0 then ascii ''-'' else []) @ str_nat (nat (n div 10))
                      @ ascii ''.'' @ [48 + nat (n mod 10)]"
    by (simp add: format_1f_def Let_def n_def [symmetric] hi lo)
  moreover have "48 + nat (n mod 10) \<le> 57" using n by simp
  ultimately show ?thesis using str_nat_digits [of "nat (n div 10)"] by fastforce
qed

lemma format_success_rate_defined:
  assumes "0 \<le> a" and "a \<le> b" and "0 < b"
  shows "format_success_rate a b
           = Inr (format_1f (float_mul (round_double (of_int a / of_int b)) 100) @ ascii ''%'')"
    and "\<exists>ds d. format_1f (float_mul (round_double (of_int a / of_int b)) 100) @ ascii ''%''
                   = ds @ ascii ''.'' @ [d] @ ascii ''%''
           \<and> ds \<noteq> [] \<and> (\<forall>c \<in> set ds. 48 \<le> c \<and> c \<le> 57) \<and> 48 \<le> d \<and> d \<le> 57"
proof -
  show "format_success_rate a b
           = Inr (format_1f (float_mul (round_double (of_int a / of_int b)) 100) @ ascii ''%'')"
    by (simp add: format_success_rate_def py_true_div_unit [OF assms])
  have "0 \<le> round_double (of_int a / of_int b)"
    using assms by (intro round_double_unit) simp_all
  then have "0 \<le> round_double (of_int a / of_int b) * 100" by simp
  then have "0 \<le> float_mul (round_double (of_int a / of_int b)) 100"
    unfolding float_mul_def by (rule round_double_nonneg)
  then show "\<exists>ds d. format_1f (float_mul (round_double (of_int a / of_int b)) 100) @ ascii ''%''
                   = ds @ ascii ''.'' @ [d] @ ascii ''%''
           \<and> ds \<noteq> [] \<and> (\<forall>c \<in> set ds. 48 \<le> c \<and> c \<le> 57) \<and> 48 \<le> d \<and> d \<le> 57"
    using format_1f_shape [of "float_mul (round_double (of_int a / of_int b)) 100"] by auto
qed

lemma read_digits_snoc: "read_digits (ds @ [c]) = 10 * read_digits ds + (c - 48)"
  by (simp add: read_digits_def)

lemma read_digits_str_nat: "read_digits (str_nat n) = n"
proof (induction n rule: str_nat.induct)
  case (1 n)
  show ?case
  proof (cases "n < 10")
    case True
    then show ?thesis by (subst str_nat.simps) (simp add: read_digits_def)
  next
    case False
    then show ?thesis
      using 1 by (subst str_nat.simps) (simp add: read_digits_snoc)
  qed
qed

lemma round_half_even_error: "\<bar>of_int (round_half_even y) - y\<bar> \<le> 1 / 2"
proof -
  have "of_int \<lfloor>y\<rfloor> \<le> y" and "y < of_int \<lfloor>y\<rfloor> + 1" by linarith+
  then show ?thesis by (auto simp: round_half_even_def Let_def abs_le_iff)
qed

lemma round_double_error: "\<bar>round_double x - x\<bar> \<le> \<bar>x\<bar> / 2 ^ 53 + 1 / 2 ^ 1075"
proof (cases "x = 0")
  case True
  then show ?thesis by (simp add: round_double_def)
next
  case False
  then have pos: "0 < \<bar>x\<bar>" by simp
  define k where "k = max (ilog2 \<bar>x\<bar> - 52) (- 1074)"
  define q where "q = pow2 k"
  have q0: "0 < q" by (simp add: q_def pow2_pos)
  have rd: "round_double x = of_int (round_half_even (x / q)) * q"
    using False by (simp add: round_double_def Let_def k_def q_def)
  have "round_double x - x = (of_int (round_half_even (x / q)) - x / q) * q"
    using q0 by (simp add: rd algebra_simps)
  then have "\<bar>round_double x - x\<bar> = \<bar>of_int (round_half_even (x / q)) - x / q\<bar> * q"
    using q0 by (simp add: abs_mult)
  also have "\<dots> \<le> (1 / 2) * q"
    using round_half_even_error [of "x / q"] q0 by (intro mult_right_mono) simp_all
  finally have err: "\<bar>round_double x - x\<bar> \<le> q / 2" by simp
  have "q \<le> \<bar>x\<bar> / 2 ^ 52 + 1 / 2 ^ 1074"
  proof (cases "- 1074 \<le> ilog2 \<bar>x\<bar> - 52")
    case True
    then have "k = ilog2 \<bar>x\<bar> + (- 52)" by (simp add: k_def)
    then have "q = pow2 (ilog2 \<bar>x\<bar> + (- 52))" by (simp only: q_def)
    also have "\<dots> = pow2 (ilog2 \<bar>x\<bar>) * pow2 (- 52)" by (rule pow2_add)
    also have "\<dots> \<le> \<bar>x\<bar> * pow2 (- 52)"
      using ilog2_bounds(1) [OF pos] pow2_pos [of "- 52"] by (intro mult_right_mono) simp_all
    finally have "q \<le> \<bar>x\<bar> / 2 ^ 52" by (simp add: pow2_def)
    then show ?thesis by (simp add: add_increasing2)
  next
    case False
    then have "k = - 1074" by (simp add: k_def)
    then have "q = pow2 (- 1074)" by (simp only: q_def)
    then have "q = 1 / 2 ^ 1074" by (simp add: pow2_def)
    then show ?thesis using pos by (simp add: add_increasing)
  qed
  then have "q / 2 \<le> \<bar>x\<bar> / 2 ^ 53 + 1 / 2 ^ 1075" by simp
  with err show ?thesis by linarith
qed


lemma round_double_error_small: "\<bar>round_double x - x\<bar> \<le> \<bar>x\<bar> / 2 ^ 53 + 1 / 2 ^ 60"
proof -
  have "(2::rat) ^ 60 \<le> 2 ^ 1075" by (rule power_increasing) simp_all
  then have "(1::rat) / 2 ^ 1075 \<le> 1 / 2 ^ 60" by (intro frac_le) simp_all
  then have "\<bar>x\<bar> / 2 ^ 53 + 1 / 2 ^ 1075 \<le> \<bar>x\<bar> / 2 ^ 53 + 1 / 2 ^ 60" by (rule add_left_mono)
  with round_double_error [of x] show ?thesis by (rule order_trans)
qed

lemma format_1f_value:
  assumes "0 \<le> x"
  shows "\<exists>ds d. format_1f x = ds @ ascii ''.'' @ [d]
     \<and> ds \<noteq> [] \<and> (\<forall>c \<in> set ds. 48 \<le> c \<and> c \<le> 57) \<and> 48 \<le> d \<and> d \<le> 57
     \<and> (of_nat (read_digits ds) :: rat) + of_nat (d - 48) / 10
         = of_int (round_half_even (x * 10)) / 10"
proof -
  define n where "n = round_half_even (x * 10)"
  have n: "0 \<le> n" unfolding n_def using assms by (intro round_half_even_nonneg) simp
  have ax: "\<bar>x\<bar> = x" using assms by simp
  have hi: "str_int (n div 10) = str_nat (nat (n div 10))"
    using n by (simp add: str_int_def pos_imp_zdiv_neg_iff)
  have "nat (n mod 10) < 10" using n by simp
  then have lo: "str_int (n mod 10) = [48 + nat (n mod 10)]"
    by (simp add: str_int_def str_nat_digit)
  have fm: "format_1f x = str_nat (nat (n div 10)) @ ascii ''.'' @ [48 + nat (n mod 10)]"
    using assms by (simp add: format_1f_def Let_def ax n_def [symmetric] hi lo)
  have "(of_nat (nat (n div 10)) :: rat) + of_nat (nat (n mod 10)) / 10
          = of_int (n div 10) + of_int (n mod 10) / 10"
    using n by (simp add: pos_imp_zdiv_nonneg_iff)
  also have "\<dots> = of_int n / 10"
  proof -
    have "(of_int n :: rat) = of_int (10 * (n div 10) + n mod 10)" by simp
    then have "(of_int n :: rat) = 10 * of_int (n div 10) + of_int (n mod 10)"
      by (simp only: of_int_add of_int_mult of_int_numeral)
    then show ?thesis by simp
  qed
  finally have val: "(of_nat (read_digits (str_nat (nat (n div 10)))) :: rat)
                       + of_nat ((48 + nat (n mod 10)) - 48) / 10 = of_int n / 10"
    by (simp add: read_digits_str_nat)
  have "48 + nat (n mod 10) \<le> 57" using n by simp
  then have "\<exists>ds d. format_1f x = ds @ ascii ''.'' @ [d]
     \<and> ds \<noteq> [] \<and> (\<forall>c \<in> set ds. 48 \<le> c \<and> c \<le> 57) \<and> 48 \<le> d \<and> d \<le> 57
     \<and> (of_nat (read_digits ds) :: rat) + of_nat (d - 48) / 10 = of_int n / 10"
    using fm val str_nat_digits [of "nat (n div 10)"]
    by (intro exI [of _ "str_nat (nat (n div 10))"] exI [of _ "48 + nat (n mod 10)"]) simp
  then show ?thesis unfolding n_def .
qed

lemma success_rate_accuracy:
  assumes "0 \<le> a" and "a \<le> b" and "0 < b"
  shows "\<bar>of_int (round_half_even (float_mul (round_double (of_int a / of_int b)) 100 * 10)) / 10
          - 100 * of_int a / (of_int b :: rat)\<bar> \<le> 1 / 20 + 1 / 2 ^ 45"
proof -
  define x :: rat where "x = of_int a / of_int b"
  define x1 where "x1 = round_double x"
  define x2 where "x2 = round_double (x1 * 100)"
  define m where "m = round_half_even (x2 * 10)"
  have x: "0 \<le> x" "x \<le> 1" using assms by (simp_all add: x_def)
  have x1: "0 \<le> x1" "x1 \<le> 1" unfolding x1_def using x by (rule round_double_unit)+
  have "\<bar>x1 - x\<bar> \<le> \<bar>x\<bar> / 2 ^ 53 + 1 / 2 ^ 60"
    unfolding x1_def by (rule round_double_error_small)
  moreover have "\<bar>x\<bar> / 2 ^ 53 \<le> 1 / 2 ^ 53" using x by (intro divide_right_mono) simp_all
  ultimately have e1: "\<bar>x1 - x\<bar> \<le> 1 / 2 ^ 53 + 1 / 2 ^ 60" by linarith
  have "\<bar>x2 - x1 * 100\<bar> \<le> \<bar>x1 * 100\<bar> / 2 ^ 53 + 1 / 2 ^ 60"
    unfolding x2_def by (rule round_double_error_small)
  moreover have "\<bar>x1 * 100\<bar> / 2 ^ 53 \<le> 100 / 2 ^ 53"
    using x1 by (intro divide_right_mono) simp_all
  ultimately have e2: "\<bar>x2 - x1 * 100\<bar> \<le> 100 / 2 ^ 53 + 1 / 2 ^ 60" by linarith
  have "\<bar>of_int m - x2 * 10\<bar> \<le> 1 / 2" unfolding m_def by (rule round_half_even_error)
  then have e3: "\<bar>of_int m / 10 - x2\<bar> \<le> 1 / 20" by (simp add: abs_le_iff field_simps)
  have "\<bar>of_int m / 10 - 100 * x\<bar> \<le> 1 / 20 + 1 / 2 ^ 45"
    using e1 [unfolded abs_le_iff] e2 [unfolded abs_le_iff] e3 [unfolded abs_le_iff]
    unfolding abs_le_iff by simp
  then show ?thesis
    by (simp add: m_def x2_def x1_def x_def float_mul_def)
qed

lemma format_success_rate_accurate:
  assumes "0 \<le> a" and "a \<le> b" and "0 < b"
  shows "\<exists>ds d. format_success_rate a b = Inr (ds @ ascii ''.'' @ [d] @ ascii ''%'')
     \<and> ds \<noteq> [] \<and> (\<forall>c \<in> set ds. 48 \<le> c \<and> c \<le> 57) \<and> 48 \<le> d \<and> d \<le> 57
     \<and> \<bar>of_nat (read_digits ds) + of_nat (d - 48) / 10 - 100 * of_int a / (of_int b :: rat)\<bar>
         \<le> 1 / 20 + 1 / 2 ^ 45"
proof -
  define x2 where "x2 = float_mul (round_double (of_int a / of_int b)) 100"
  have "0 \<le> round_double (of_int a / of_int b)"
    using assms by (intro round_double_nonneg) simp
  then have "0 \<le> round_double (of_int a / of_int b) * 100" by simp
  then have x2: "0 \<le> x2" unfolding x2_def float_mul_def by (rule round_double_nonneg)
  obtain ds d where f: "format_1f x2 = ds @ ascii ''.'' @ [d]"
    and dg: "ds \<noteq> []" "\<forall>c \<in> set ds. 48 \<le> c \<and> c \<le> 57" "48 \<le> d" "d \<le> 57"
    and v: "(of_nat (read_digits ds) :: rat) + of_nat (d - 48) / 10
              = of_int (round_half_even (x2 * 10)) / 10"
    using format_1f_value [OF x2] by blast
  have "format_success_rate a b = Inr (ds @ ascii ''.'' @ [d] @ ascii ''%'')"
    using format_success_rate_defined(1) [OF assms] f by (simp add: x2_def)
  moreover have "\<bar>of_nat (read_digits ds) + of_nat (d - 48) / 10
                   - 100 * of_int a / (of_int b :: rat)\<bar> \<le> 1 / 20 + 1 / 2 ^ 45"
    using success_rate_accuracy [OF assms] by (simp only: v x2_def)
  ultimately show ?thesis using dg by blast
qed

lemma completion_status_cases:
  assumes "\<bar>n\<bar> < 2 ^ 53"
  shows "completion_status f n =
           Inr (if f = 0 then ascii ''success''
                else if (of_int f :: rat) < of_int n / 2 then ascii ''warning''
                else ascii ''error'')"
  by (simp add: completion_status_def py_true_div_half [OF assms])

section \<open>Normalization\<close>



lemma replace_char_filter: "replace s [c] [] = filter (\<lambda>x. x \<noteq> c) s"
proof (induction s)
  case Nil
  show ?case by (simp add: replace.simps)
next
  case (Cons a s)
  show ?case
  proof (cases "a = c")
    case True
    then show ?thesis using Cons.IH by (subst replace.simps) simp
  next
    case False
    then show ?thesis using Cons.IH by (subst replace.simps) simp
  qed
qed

lemma normalized_filter:
  "normalized p = filter (\<lambda>x. x \<noteq> 0x770C \<and> x \<noteq> 0x90FD \<and> x \<noteq> 0x5E9C) p"
  by (simp add: normalized_def ken_def to_def fu_def replace_char_filter conj_commute conj_left_commute)

lemma split_slash_no_slash: "0x2F \<notin> set f \<Longrightarrow> split_slash f = f # []"
  by (induction f) auto

lemma path_parts_single:
  assumes "0x2F \<notin> set f" and "f \<noteq> []" and "f \<noteq> ascii ''.''"
  shows "path_parts f = f # []" and "path_root f = []"
proof -
  show "path_parts f = f # []"
    using assms by (simp add: path_parts_def split_slash_no_slash)
  have "hd f \<noteq> 0x2F" using assms(1,2) by (cases f) auto
  then show "path_root f = []"
    using assms(2) by (cases f) (auto simp: path_root_def ascii_def)
qed

lemma db_schools_parts:
  "path_parts (ascii ''db/schools'') = ascii ''db'' # ascii ''schools'' # []"
  "path_root (ascii ''db/schools'') = []"
  by (simp_all add: path_parts_def path_root_def ascii_def)

lemma artifact_path_db_schools:
  assumes "0x2F \<notin> set r"
  shows "path_join (ascii ''db/schools'') (artifact_filename r)
           = ascii ''db/schools/'' @ normalized r @ ascii ''_schools.json''"
proof -
  have 1: "0x2F \<notin> set (artifact_filename r)"
    using assms by (auto simp: artifact_filename_def normalized_filter ascii_def)
  have 2: "artifact_filename r \<noteq> []" by (simp add: artifact_filename_def ascii_def)
  have "length (artifact_filename r) \<ge> 13" by (simp add: artifact_filename_def ascii_def)
  then have 3: "artifact_filename r \<noteq> ascii ''.''" by (auto simp: ascii_def)
  show ?thesis
    using path_parts_single [OF 1 2 3]
    by (simp add: path_join_def db_schools_parts Let_def) (simp add: ascii_def artifact_filename_def)
qed

lemma save_written:
  assumes "file_write e (write_attempts w) (path_join (output_dir c) (artifact_filename r)) = Written"
  shows "fst (save_prefecture_data e c r d w) = True"
    and "map_of (files (snd (save_prefecture_data e c r d w)))
           (path_join (output_dir c) (artifact_filename r)) = Some (ArtifactFile d)"
    and "set (map fst (files (snd (save_prefecture_data e c r d w))))
           = insert (path_join (output_dir c) (artifact_filename r)) (set (map fst (files w)))"
  using assms
  by (auto simp: save_prefecture_data_def Let_def logger_def update_conv' update_keys)

text \<open>
  C10. Normalization of a Region name removes every occurrence of the characters
  U+770C, U+90FD and U+5E9C, wherever they stand, not only a trailing one. The
  normalized name is the prefix of each synthesized school name, and it is the name
  under which \<open>save_prefecture_data\<close> writes: when the write succeeds, the file of the
  output directory named by the Region without those characters, followed by
  \<open>_schools.json\<close>, holds the data, and no other file name is added; for a Region
  without a slash and the collector of \<open>__init__\<close> that path is \<open>db/schools/\<close>, the
  normalized name, \<open>_schools.json\<close>. For U+4EAC U+90FD U+5E9C (Kyoto-fu) the
  normalized name is the single character U+4EAC: the interior U+90FD goes as well as
  the final U+5E9C; U+5317 U+6D77 U+9053 (Hokkaido) is unchanged.
\<close>

theorem normalized_removes_every_occurrence:
  "normalized r = filter (\<lambda>x. x \<notin> {0x770C, 0x90FD, 0x5E9C}) r
   \<and> name (school_data e r i t) = normalized r @ school_types ! (i mod 3) @ [65 + i] @ kotogakko
   \<and> artifact_filename r = normalized r @ ascii ''_schools.json''
   \<and> normalized kyoto_fu = [0x4EAC]
   \<and> normalized hokkaido = hokkaido
   \<and> (file_write e (write_attempts w)
         (path_join (output_dir c)
            (filter (\<lambda>x. x \<notin> {0x770C, 0x90FD, 0x5E9C}) r @ ascii ''_schools.json'')) = Written
        \<longrightarrow>
        fst (save_prefecture_data e c r d w) = True
        \<and> map_of (files (snd (save_prefecture_data e c r d w)))
             (path_join (output_dir c)
                (filter (\<lambda>x. x \<notin> {0x770C, 0x90FD, 0x5E9C}) r @ ascii ''_schools.json''))
           = Some (ArtifactFile d)
        \<and> set (map fst (files (snd (save_prefecture_data e c r d w))))
           = insert (path_join (output_dir c)
                       (filter (\<lambda>x. x \<notin> {0x770C, 0x90FD, 0x5E9C}) r @ ascii ''_schools.json''))
               (set (map fst (files w))))
   \<and> (0x2F \<notin> set r \<longrightarrow>
        path_join (output_dir (init_collector getenv))
          (filter (\<lambda>x. x \<notin> {0x770C, 0x90FD, 0x5E9C}) r @ ascii ''_schools.json'')
        = ascii ''db/schools/'' @ filter (\<lambda>x. x \<notin> {0x770C, 0x90FD, 0x5E9C}) r
          @ ascii ''_schools.json'')"
proof -
  have nf: "normalized r = filter (\<lambda>x. x \<notin> {0x770C, 0x90FD, 0x5E9C}) r"
    by (simp add: normalized_filter)
  have af: "artifact_filename r
              = filter (\<lambda>x. x \<notin> {0x770C, 0x90FD, 0x5E9C}) r @ ascii ''_schools.json''"
    by (simp add: artifact_filename_def nf)
  have basic: "name (school_data e r i t)
                 = normalized r @ school_types ! (i mod 3) @ [65 + i] @ kotogakko"
    "artifact_filename r = normalized r @ ascii ''_schools.json''"
    "normalized kyoto_fu = [0x4EAC]" "normalized hokkaido = hokkaido"
    by (simp_all add: normalized_filter school_data_def school_name_def artifact_filename_def
        kyoto_fu_def hokkaido_def Let_def)
  have path: "path_join (output_dir (init_collector getenv))
          (filter (\<lambda>x. x \<notin> {0x770C, 0x90FD, 0x5E9C}) r @ ascii ''_schools.json'')
        = ascii ''db/schools/'' @ filter (\<lambda>x. x \<notin> {0x770C, 0x90FD, 0x5E9C}) r
          @ ascii ''_schools.json''" if "0x2F \<notin> set r"
    using artifact_path_db_schools [OF that] by (simp add: init_collector_def af nf)
  show ?thesis
    using nf basic path save_written [of e w c r d, unfolded af] by blast
qed

theorem normalized_removes_every_occurrence_witness:
  "normalized [0x90FD, 0x5927, 0x5E9C, 0x962A, 0x770C, 0x770C] = [0x5927, 0x962A]
   \<and> artifact_filename kyoto_fu = [0x4EAC] @ ascii ''_schools.json''
   \<and> 0x2F \<notin> set kyoto_fu
   \<and> file_write sample_env (write_attempts fresh_world)
        (ascii ''db/schools/'' @ [0x4EAC] @ ascii ''_schools.json'') = Written
   \<and> map_of (files (snd (save_prefecture_data sample_env (init_collector (\<lambda>v. None)) kyoto_fu
                             (Live (JObject [])) fresh_world)))
        (ascii ''db/schools/'' @ [0x4EAC] @ ascii ''_schools.json'')
      = Some (ArtifactFile (Live (JObject [])))
   \<and> map fst (files (snd (save_prefecture_data sample_env (init_collector (\<lambda>v. None)) tokyo_to
                              (Live (JObject [])) fresh_world)))
      = [ascii ''db/schools/'' @ [0x6771, 0x4EAC] @ ascii ''_schools.json'']"
  using normalized_removes_every_occurrence
          [where r = "[0x90FD, 0x5927, 0x5E9C, 0x962A, 0x770C, 0x770C]"]
        normalized_removes_every_occurrence
          [where r = kyoto_fu and e = sample_env and w = fresh_world
             and c = "init_collector (\<lambda>v. None)" and d = "Live (JObject [])"
             and getenv = "\<lambda>v. None"]
        normalized_removes_every_occurrence
          [where r = tokyo_to and e = sample_env and w = fresh_world
             and c = "init_collector (\<lambda>v. None)" and d = "Live (JObject [])"
             and getenv = "\<lambda>v. None"]
  by (simp add: kyoto_fu_def tokyo_to_def sample_env_def fresh_world_def
      save_prefecture_data_def Let_def logger_def)

section \<open>The placeholder synthesizer: count, tags, scores\<close>

lemma upt_0_5: "[0..<5] = [0, 1, 2, 3, 4]"
  by (simp add: upt_rec)

lemma placeholder_schools:
  "schools (fst (generate_placeholder_data e c ps w)) =
     map (\<lambda>i. school_data e (case p_prefecture ps of None \<Rightarrow> tokyo_to | Some p \<Rightarrow> p) i
                 (now e (clock_reads w + i))) [0..<5]"
  by (simp add: generate_placeholder_data_def Let_def)

text \<open>
  C2. Whatever the parameters (so for every Region), the synthesizer returns exactly five
  records, \<open>total_schools = 5\<close>, the provenance \<open>placeholder\<close> when no credential is
  configured, and at index \<open>i\<close> the category tag number \<open>i mod 3\<close> of the three types,
  that is the cycle \<open>kenritsu\<close>, \<open>shiritsu\<close>, \<open>kokuritsu\<close>, \<open>kenritsu\<close>,
  \<open>shiritsu\<close>. For the Region U+6771 U+4EAC U+90FD (Tokyo-to) the first name is
  U+6771 U+4EAC, then \<open>kenritsu\<close> (U+770C U+7ACB), then \<open>A\<close>, then the suffix for high
  school.
\<close>

theorem placeholder_five_records_cycling:
  "length (schools (fst (generate_placeholder_data e c ps w))) = 5
   \<and> total_schools (fst (generate_placeholder_data e c ps w)) = 5
   \<and> (\<not> truthy (api_key c) \<longrightarrow>
        data_source (fst (generate_placeholder_data e c ps w)) = ascii ''placeholder'')
   \<and> (\<forall>i<5. school_type (schools (fst (generate_placeholder_data e c ps w)) ! i)
               = school_types ! (i mod 3))
   \<and> map school_type (schools (fst (generate_placeholder_data e c ps w)))
       = [kenritsu, shiritsu, kokuritsu, kenritsu, shiritsu]
   \<and> name (schools (fst (generate_placeholder_data e c (collect_params tokyo_to) w)) ! 0)
       = [0x6771, 0x4EAC] @ kenritsu @ ascii ''A'' @ kotogakko"
proof (intro conjI)
  show "length (schools (fst (generate_placeholder_data e c ps w))) = 5"
    by (simp add: placeholder_schools)
  show "total_schools (fst (generate_placeholder_data e c ps w)) = 5"
    by (simp add: generate_placeholder_data_def Let_def)
  show "\<not> truthy (api_key c) \<longrightarrow>
        data_source (fst (generate_placeholder_data e c ps w)) = ascii ''placeholder''"
    by (simp add: generate_placeholder_data_def Let_def)
  show "\<forall>i<5. school_type (schools (fst (generate_placeholder_data e c ps w)) ! i)
               = school_types ! (i mod 3)"
    by (simp add: placeholder_schools school_data_def Let_def)
  show "map school_type (schools (fst (generate_placeholder_data e c ps w)))
       = [kenritsu, shiritsu, kokuritsu, kenritsu, shiritsu]"
    by (simp add: placeholder_schools school_data_def Let_def upt_0_5 school_types_def)
  show "name (schools (fst (generate_placeholder_data e c (collect_params tokyo_to) w)) ! 0)
       = [0x6771, 0x4EAC] @ kenritsu @ ascii ''A'' @ kotogakko"
    by (simp add: placeholder_schools school_data_def Let_def upt_0_5 collect_params_def
        school_name_def normalized_filter tokyo_to_def school_types_def ascii_def)
qed

theorem placeholder_five_records_cycling_witness:
  "\<not> truthy (api_key offline_collector)
   \<and> total_schools
        (fst (generate_placeholder_data sample_env offline_collector (collect_params kyoto_fu)
                fresh_world)) = 5
   \<and> data_source
        (fst (generate_placeholder_data sample_env offline_collector (collect_params kyoto_fu)
                fresh_world)) = ascii ''placeholder''
   \<and> school_type
        (schools
          (fst (generate_placeholder_data sample_env offline_collector (collect_params kyoto_fu)
                 fresh_world)) ! 4) = shiritsu"
  using placeholder_five_records_cycling
          [of sample_env offline_collector "collect_params kyoto_fu" fresh_world]
  by (simp add: truthy_def offline_collector_def school_types_def)

text \<open>
  C3. Two invocations of the synthesizer on the same Region under the same string hash
  give the same category tags and the same scores at every index, whatever else
  differs between them: the clock, the state of the process, the credential, the other
  query parameters.
\<close>

theorem placeholder_tags_scores_deterministic:
  "hash e1 = hash e2 \<Longrightarrow> p_prefecture ps1 = p_prefecture ps2 \<Longrightarrow>
   map school_type (schools (fst (generate_placeholder_data e1 c1 ps1 w1)))
     = map school_type (schools (fst (generate_placeholder_data e2 c2 ps2 w2)))
   \<and> map hensachi (schools (fst (generate_placeholder_data e1 c1 ps1 w1)))
     = map hensachi (schools (fst (generate_placeholder_data e2 c2 ps2 w2)))"
  by (simp add: placeholder_schools school_data_def Let_def)

theorem placeholder_tags_scores_deterministic_witness:
  "hash sample_env = hash (sample_env\<lparr>now := (\<lambda>k. \<lparr>isoformat = ascii ''later'', timestamp = 7\<rparr>)\<rparr>)
   \<and> p_prefecture (collect_params kyoto_fu)
       = p_prefecture ((collect_params kyoto_fu)\<lparr>p_include_details := None\<rparr>)
   \<and> map hensachi
        (schools (fst (generate_placeholder_data sample_env offline_collector
                         (collect_params kyoto_fu) fresh_world)))
     = map hensachi
        (schools (fst (generate_placeholder_data
                         (sample_env\<lparr>now := (\<lambda>k. \<lparr>isoformat = ascii ''later'', timestamp = 7\<rparr>)\<rparr>)
                         online_collector
                         ((collect_params kyoto_fu)\<lparr>p_include_details := None\<rparr>)
                         (fresh_world\<lparr>clock_reads := 40\<rparr>))))"
  using placeholder_tags_scores_deterministic
          [of sample_env "sample_env\<lparr>now := (\<lambda>k. \<lparr>isoformat = ascii ''later'', timestamp = 7\<rparr>)\<rparr>"
              "collect_params kyoto_fu" "(collect_params kyoto_fu)\<lparr>p_include_details := None\<rparr>"
              offline_collector fresh_world online_collector "fresh_world\<lparr>clock_reads := 40\<rparr>"]
  by simp

text \<open>
  C4. For every index \<open>i\<close> below 5 the score of the record at \<open>i\<close> is
  \<open>50 + i * 5 + (h(name) mod 20)\<close>, with \<open>name\<close> the name of that record and \<open>h\<close> the
  string hash; so it is an integer from \<open>50 + 5 * i\<close> to \<open>69 + 5 * i\<close>.
\<close>

theorem placeholder_score_formula:
  "i < 5 \<Longrightarrow>
   hensachi (schools (fst (generate_placeholder_data e c ps w)) ! i)
     = 50 + int i * 5
       + hash e (name (schools (fst (generate_placeholder_data e c ps w)) ! i)) mod 20
   \<and> 50 + 5 * int i \<le> hensachi (schools (fst (generate_placeholder_data e c ps w)) ! i)
   \<and> hensachi (schools (fst (generate_placeholder_data e c ps w)) ! i) \<le> 69 + 5 * int i"
  by (simp add: placeholder_schools school_data_def Let_def)

theorem placeholder_score_formula_witness:
  "(3::nat) < 5
   \<and> 65 \<le> hensachi (schools (fst (generate_placeholder_data sample_env offline_collector
                                     (collect_params kyoto_fu) fresh_world)) ! 3)
   \<and> hensachi (schools (fst (generate_placeholder_data sample_env offline_collector
                                (collect_params kyoto_fu) fresh_world)) ! 3) \<le> 84"
  using placeholder_score_formula
          [of 3 sample_env offline_collector "collect_params kyoto_fu" fresh_world]
  by simp

section \<open>The orchestrator: one entry per Region\<close>

lemma process_prefecture_assigns:
  "\<exists>b. fst (process_prefecture e c tot i p rs w) = AList.update p b rs"
  by (auto simp: process_prefecture_def Let_def split: prod.splits sum.splits)

lemma collect_loop_set:
  "set (map fst (fst (collect_loop e c tot i ps rs w))) = set (map fst rs) \<union> set ps"
proof (induction ps arbitrary: rs w i)
  case Nil
  show ?case by simp
next
  case (Cons p ps)
  obtain b where b: "fst (process_prefecture e c tot i p rs w) = AList.update p b rs"
    using process_prefecture_assigns by blast
  obtain rs' w' where st: "process_prefecture e c tot i p rs w = (rs', w')"
    by (cases "process_prefecture e c tot i p rs w")
  with b have rs': "rs' = AList.update p b rs" by simp
  show ?case
    using Cons.IH [of "i + 1" rs' w'] st rs' by (auto simp: update_keys)
qed

lemma collect_loop_distinct:
  "distinct (map fst rs) \<Longrightarrow> distinct (map fst (fst (collect_loop e c tot i ps rs w)))"
proof (induction ps arbitrary: rs w i)
  case Nil
  then show ?case by simp
next
  case (Cons p ps)
  obtain b where b: "fst (process_prefecture e c tot i p rs w) = AList.update p b rs"
    using process_prefecture_assigns by blast
  obtain rs' w' where st: "process_prefecture e c tot i p rs w = (rs', w')"
    by (cases "process_prefecture e c tot i p rs w")
  with b have rs': "rs' = AList.update p b rs" by simp
  have "distinct (map fst rs')" using Cons.prems rs' by (simp add: distinct_update)
  then show ?case
    using Cons.IH [of rs' "i + 1" w'] st by simp
qed

lemma collect_loop_keys:
  "distinct ps \<Longrightarrow> set ps \<inter> set (map fst rs) = {} \<Longrightarrow>
   map fst (fst (collect_loop e c tot i ps rs w)) = map fst rs @ ps"
proof (induction ps arbitrary: rs w i)
  case Nil
  then show ?case by simp
next
  case (Cons p ps)
  obtain b where b: "fst (process_prefecture e c tot i p rs w) = AList.update p b rs"
    using process_prefecture_assigns by blast
  obtain rs' w' where st: "process_prefecture e c tot i p rs w = (rs', w')"
    by (cases "process_prefecture e c tot i p rs w")
  with b have rs': "rs' = AList.update p b rs" by simp
  have k: "map fst rs' = map fst rs @ [p]" using Cons.prems rs' by (auto simp: update_keys)
  have "map fst (fst (collect_loop e c tot (i + 1) ps rs' w')) = map fst rs' @ ps"
    using Cons.prems k by (intro Cons.IH) auto
  then show ?case using st k by simp
qed


lemma update_values: "snd ` set (AList.update k v al) \<subseteq> insert v (snd ` set al)"
  by (induction al) auto

lemma api_request_failed_cases:
  "fst (api_request_failed ex w) = Inr None \<or> fst (api_request_failed ex w) = Inl ex"
  by (simp add: api_request_failed_def)

lemma make_api_request_all_raise:
  assumes "truthy (api_key c)" and "\<forall>k q. isl (http e k q)"
  shows "fst (make_api_request e c ep ps w) = Inr None \<or> isl (fst (make_api_request e c ep ps w))"
proof -
  obtain ex where "http e (length (http_calls w)) (api_get_request c ep ps) = Inl ex"
    using assms(2) by (metis isl_def)
  then show ?thesis
    using assms(1) by (simp add: make_api_request_def Let_def api_request_failed_def)
qed

lemma collect_prefecture_data_absent:
  "fst (make_api_request e c (ascii ''schools/search'') (collect_params p)
          (collecting p w)) = Inr None
   \<Longrightarrow> fst (collect_prefecture_data e c p w) = Inr None"
  by (auto simp: collect_prefecture_data_def Let_def opt_truthy_def split: prod.splits)

lemma collect_prefecture_data_raises:
  "isl (fst (make_api_request e c (ascii ''schools/search'') (collect_params p)
          (collecting p w)))
   \<Longrightarrow> isl (fst (collect_prefecture_data e c p w))"
  by (auto simp: collect_prefecture_data_def Let_def isl_def split: prod.splits)

lemma process_prefecture_fetch_failed:
  assumes "fst (collect_prefecture_data e c p (processing p i tot w)) = Inr None
           \<or> isl (fst (collect_prefecture_data e c p (processing p i tot w)))"
  shows "fst (process_prefecture e c tot i p rs w) = AList.update p False rs"
  using assms
  by (auto simp: process_prefecture_def Let_def opt_truthy_def isl_def split: prod.splits sum.splits)

lemma process_prefecture_all_raise:
  assumes "truthy (api_key c)" and "\<forall>k q. isl (http e k q)"
  shows "fst (process_prefecture e c tot i p rs w) = AList.update p False rs"
  using make_api_request_all_raise [OF assms]
    collect_prefecture_data_absent collect_prefecture_data_raises
  by (intro process_prefecture_fetch_failed) blast

lemma save_prefecture_data_fails:
  "\<forall>k path. file_write e k path \<noteq> Written \<Longrightarrow> fst (save_prefecture_data e c p d w) = False"
  by (auto simp: save_prefecture_data_def Let_def split: write_outcome.splits)

lemma process_prefecture_no_save:
  assumes "\<forall>k path. file_write e k path \<noteq> Written"
  shows "fst (process_prefecture e c tot i p rs w) = AList.update p False rs"
proof -
  have "b = False" if "save_prefecture_data e c p d w2 = (b, w3)" for d w2 b w3
    using save_prefecture_data_fails [OF assms, of c p d w2] that by simp
  then show ?thesis
    by (fastforce simp: process_prefecture_def Let_def split: prod.splits sum.splits)
qed

lemma collect_loop_all_false:
  assumes "\<And>i p rs w. fst (process_prefecture e c tot i p rs w) = AList.update p False rs"
  shows "snd ` set rs \<subseteq> {False} \<Longrightarrow> snd ` set (fst (collect_loop e c tot i ps rs w)) \<subseteq> {False}"
proof (induction ps arbitrary: rs w i)
  case Nil
  then show ?case by simp
next
  case (Cons p ps)
  obtain rs' w' where st: "process_prefecture e c tot i p rs w = (rs', w')"
    by (cases "process_prefecture e c tot i p rs w")
  with assms [of i p rs w] have rs': "rs' = AList.update p False rs" by simp
  have "snd ` set rs' \<subseteq> {False}"
    using update_values [of p False rs] Cons.prems rs' by blast
  then show ?case
    using Cons.IH [of rs' "i + 1" w'] st by simp
qed

lemma lookup_all_false:
  assumes "snd ` set rs \<subseteq> {False}" and "p \<in> set (map fst rs)"
  shows "map_of rs p = Some False"
proof -
  obtain b where b: "map_of rs p = Some b"
    using assms(2) by (metis map_of_eq_None_iff not_Some_eq set_map)
  then have "(p, b) \<in> set rs" by (rule map_of_SomeD)
  then have "b \<in> snd ` set rs" by force
  with assms(1) b show ?thesis by auto
qed

lemma japan_prefectures_distinct: "distinct japan_prefectures"
  by (simp add: japan_prefectures_def)

lemma japan_prefectures_length: "length japan_prefectures = 47"
  by (simp add: japan_prefectures_def)

text \<open>
  C5. Whatever the Region list and whatever the network and the disk do, the mapping
  the orchestrator returns has exactly one entry per enumerated Region: its keys are
  distinct and are the Regions of the list (in the order of the list when that has no
  repetition). Each pass of the loop ends in one assignment to the entry of its
  Region and the loop goes on to the next Region. When every fetch raises, and when
  every save raises, every Region is recorded as \<open>False\<close>. For the collector as
  \<open>__init__\<close> builds it the keys are the 47 prefectures, in their order.
\<close>

theorem orchestrator_one_entry_per_region:
  "distinct (map fst (fst (collect_all_prefectures e c w)))
   \<and> set (map fst (fst (collect_all_prefectures e c w))) = set (prefectures c)
   \<and> (distinct (prefectures c) \<longrightarrow>
        map fst (fst (collect_all_prefectures e c w)) = prefectures c)
   \<and> (\<forall>i p rs w'. \<exists>b. fst (process_prefecture e c tot i p rs w') = AList.update p b rs)
   \<and> (truthy (api_key c) \<and> (\<forall>k q. isl (http e k q)) \<longrightarrow>
        (\<forall>p \<in> set (prefectures c). map_of (fst (collect_all_prefectures e c w)) p = Some False))
   \<and> ((\<forall>k path. file_write e k path \<noteq> Written) \<longrightarrow>
        (\<forall>p \<in> set (prefectures c). map_of (fst (collect_all_prefectures e c w)) p = Some False))
   \<and> map fst (fst (collect_all_prefectures e (init_collector getenv) w)) = japan_prefectures"
proof (intro conjI impI ballI allI)
  show "map fst (fst (collect_all_prefectures e (init_collector getenv) w)) = japan_prefectures"
    using japan_prefectures_distinct
    by (simp add: collect_all_prefectures_def Let_def collect_loop_keys init_collector_def)
  show "distinct (map fst (fst (collect_all_prefectures e c w)))"
    by (simp add: collect_all_prefectures_def Let_def collect_loop_distinct)
  show keys: "set (map fst (fst (collect_all_prefectures e c w))) = set (prefectures c)"
    by (simp only: collect_all_prefectures_def Let_def collect_loop_set) simp
  show "map fst (fst (collect_all_prefectures e c w)) = prefectures c" if "distinct (prefectures c)"
    using that by (simp add: collect_all_prefectures_def Let_def collect_loop_keys)
  show "\<exists>b. fst (process_prefecture e c tot i p rs w') = AList.update p b rs" for i p rs w'
    by (rule process_prefecture_assigns)
  show "map_of (fst (collect_all_prefectures e c w)) p = Some False"
    if "truthy (api_key c) \<and> (\<forall>k q. isl (http e k q))" and "p \<in> set (prefectures c)" for p
  proof (rule lookup_all_false)
    show "snd ` set (fst (collect_all_prefectures e c w)) \<subseteq> {False}"
      unfolding collect_all_prefectures_def Let_def
      using that(1) by (intro collect_loop_all_false process_prefecture_all_raise) auto
    show "p \<in> set (map fst (fst (collect_all_prefectures e c w)))"
      using that(2) keys by simp
  qed
  show "map_of (fst (collect_all_prefectures e c w)) p = Some False"
    if "\<forall>k path. file_write e k path \<noteq> Written" and "p \<in> set (prefectures c)" for p
  proof (rule lookup_all_false)
    show "snd ` set (fst (collect_all_prefectures e c w)) \<subseteq> {False}"
      unfolding collect_all_prefectures_def Let_def
      using that(1) by (intro collect_loop_all_false process_prefecture_no_save) auto
    show "p \<in> set (map fst (fst (collect_all_prefectures e c w)))"
      using that(2) keys by simp
  qed
qed

theorem orchestrator_one_entry_per_region_witness:
  "truthy (api_key online_collector) \<and> (\<forall>k q. isl (http sample_env k q))
   \<and> distinct (prefectures online_collector)
   \<and> map fst (fst (collect_all_prefectures sample_env online_collector fresh_world))
       = [hokkaido, tokyo_to, kyoto_fu]
   \<and> map_of (fst (collect_all_prefectures sample_env online_collector fresh_world)) kyoto_fu
       = Some False
   \<and> (\<forall>k path. file_write readonly_env k path \<noteq> Written)
   \<and> map_of (fst (collect_all_prefectures readonly_env offline_collector fresh_world)) tokyo_to
       = Some False"
  using orchestrator_one_entry_per_region [of sample_env online_collector fresh_world 3]
        orchestrator_one_entry_per_region [of readonly_env offline_collector fresh_world 3]
  by (simp add: online_collector_def offline_collector_def sample_env_def readonly_env_def
      truthy_def ascii_def hokkaido_def tokyo_to_def kyoto_fu_def)

section \<open>The fetcher and the dispatcher\<close>

text \<open>
  C9, as amended. The fetcher returns the synthesized mapping when no credential is
  configured, and with a credential the body of a response of good status as parsed,
  verbatim (\<open>None\<close> for the body \<open>null\<close>). An exception of the class
  \<open>RequestException\<close> raised by the request (timeout, connection error) or by the
  parsing, and a response of status 4xx or 5xx, are logged and answered by \<open>None\<close>.
  No \<open>RequestException\<close> ever leaves the fetcher; an exception of another class does
  leave it, unlogged. At most one request is made. In both cases, absent or raised,
  the pass of the orchestrator for that Region records \<open>False\<close> and the loop goes on.
\<close>

theorem fetcher_catches_request_exceptions:
  "(\<not> truthy (api_key c) \<longrightarrow>
      fst (make_api_request e c ep ps w)
        = Inr (Some (Placeholder (fst (generate_placeholder_data e c ps (no_api_key w))))))
   \<and> (truthy (api_key c) \<and> http e (length (http_calls w)) (api_get_request c ep ps) = Inl ex
        \<and> is_RequestException ex \<longrightarrow>
        make_api_request e c ep ps w
          = (Inr None, logger ERROR (ascii ''API request failed: '' @ exn_str ex)
                         (w\<lparr>http_calls := http_calls w @ [api_get_request c ep ps]\<rparr>)))
   \<and> (truthy (api_key c) \<and> http e (length (http_calls w)) (api_get_request c ep ps) = Inr r
        \<and> 400 \<le> status_code r \<and> status_code r < 600 \<longrightarrow>
        make_api_request e c ep ps w
          = (Inr None, logger ERROR (ascii ''API request failed: '' @ http_error_message r)
                         (w\<lparr>http_calls := http_calls w @ [api_get_request c ep ps]\<rparr>)))
   \<and> (\<forall>ex'. fst (make_api_request e c ep ps w) = Inl ex' \<longrightarrow> \<not> is_RequestException ex')
   \<and> (fst (make_api_request e c (ascii ''schools/search'') (collect_params p)
               (collecting p (processing p i tot w))) = Inr None
        \<or> isl (fst (make_api_request e c (ascii ''schools/search'') (collect_params p)
                      (collecting p (processing p i tot w)))) \<longrightarrow>
        fst (process_prefecture e c tot i p rs w) = AList.update p False rs)
   \<and> (truthy (api_key c) \<and> http e (length (http_calls w)) (api_get_request c ep ps) = Inr r
        \<and> \<not> (400 \<le> status_code r \<and> status_code r < 600) \<and> json_body r = Inr j \<longrightarrow>
        make_api_request e c ep ps w
          = (Inr (if j = JNull then None else Some (Live j)),
             w\<lparr>http_calls := http_calls w @ [api_get_request c ep ps]\<rparr>))
   \<and> (truthy (api_key c) \<and> http e (length (http_calls w)) (api_get_request c ep ps) = Inr r
        \<and> \<not> (400 \<le> status_code r \<and> status_code r < 600) \<and> json_body r = Inl ex \<longrightarrow>
        make_api_request e c ep ps w
          = (if is_RequestException ex
             then (Inr None, logger ERROR (ascii ''API request failed: '' @ exn_str ex)
                               (w\<lparr>http_calls := http_calls w @ [api_get_request c ep ps]\<rparr>))
             else (Inl ex, w\<lparr>http_calls := http_calls w @ [api_get_request c ep ps]\<rparr>)))
   \<and> (truthy (api_key c) \<and> http e (length (http_calls w)) (api_get_request c ep ps) = Inl ex
        \<and> \<not> is_RequestException ex \<longrightarrow>
        make_api_request e c ep ps w
          = (Inl ex, w\<lparr>http_calls := http_calls w @ [api_get_request c ep ps]\<rparr>))
   \<and> length (http_calls (snd (make_api_request e c ep ps w))) \<le> length (http_calls w) + 1"
proof (intro conjI impI allI)
  show "fst (make_api_request e c ep ps w)
        = Inr (Some (Placeholder (fst (generate_placeholder_data e c ps (no_api_key w)))))"
    if "\<not> truthy (api_key c)"
    using that by (simp add: make_api_request_def split: prod.splits)
  show "make_api_request e c ep ps w
          = (Inr None, logger ERROR (ascii ''API request failed: '' @ exn_str ex)
                         (w\<lparr>http_calls := http_calls w @ [api_get_request c ep ps]\<rparr>))"
    if "truthy (api_key c) \<and> http e (length (http_calls w)) (api_get_request c ep ps) = Inl ex
        \<and> is_RequestException ex"
    using that by (simp add: make_api_request_def Let_def api_request_failed_def)
  show "make_api_request e c ep ps w
          = (Inr None, logger ERROR (ascii ''API request failed: '' @ http_error_message r)
                         (w\<lparr>http_calls := http_calls w @ [api_get_request c ep ps]\<rparr>))"
    if "truthy (api_key c) \<and> http e (length (http_calls w)) (api_get_request c ep ps) = Inr r
        \<and> 400 \<le> status_code r \<and> status_code r < 600"
    using that
    by (simp add: make_api_request_def Let_def api_request_failed_def raise_for_status_def)
  show "\<not> is_RequestException ex'" if "fst (make_api_request e c ep ps w) = Inl ex'" for ex'
    using that
    by (auto simp: make_api_request_def Let_def api_request_failed_def
        split: prod.splits sum.splits option.splits if_splits)
  show "fst (process_prefecture e c tot i p rs w) = AList.update p False rs"
    if "fst (make_api_request e c (ascii ''schools/search'') (collect_params p)
               (collecting p (processing p i tot w))) = Inr None
        \<or> isl (fst (make_api_request e c (ascii ''schools/search'') (collect_params p)
                      (collecting p (processing p i tot w))))"
    using that collect_prefecture_data_absent collect_prefecture_data_raises
    by (intro process_prefecture_fetch_failed) blast
  show "make_api_request e c ep ps w
          = (Inr (if j = JNull then None else Some (Live j)),
             w\<lparr>http_calls := http_calls w @ [api_get_request c ep ps]\<rparr>)"
    if "truthy (api_key c) \<and> http e (length (http_calls w)) (api_get_request c ep ps) = Inr r
        \<and> \<not> (400 \<le> status_code r \<and> status_code r < 600) \<and> json_body r = Inr j"
    using that by (auto simp: make_api_request_def Let_def raise_for_status_def)
  show "make_api_request e c ep ps w
          = (if is_RequestException ex
             then (Inr None, logger ERROR (ascii ''API request failed: '' @ exn_str ex)
                               (w\<lparr>http_calls := http_calls w @ [api_get_request c ep ps]\<rparr>))
             else (Inl ex, w\<lparr>http_calls := http_calls w @ [api_get_request c ep ps]\<rparr>))"
    if "truthy (api_key c) \<and> http e (length (http_calls w)) (api_get_request c ep ps) = Inr r
        \<and> \<not> (400 \<le> status_code r \<and> status_code r < 600) \<and> json_body r = Inl ex"
    using that
    by (auto simp: make_api_request_def Let_def raise_for_status_def api_request_failed_def)
  show "make_api_request e c ep ps w
          = (Inl ex, w\<lparr>http_calls := http_calls w @ [api_get_request c ep ps]\<rparr>)"
    if "truthy (api_key c) \<and> http e (length (http_calls w)) (api_get_request c ep ps) = Inl ex
        \<and> \<not> is_RequestException ex"
    using that by (simp add: make_api_request_def Let_def api_request_failed_def)
  show "length (http_calls (snd (make_api_request e c ep ps w))) \<le> length (http_calls w) + 1"
    by (auto simp: make_api_request_def Let_def api_request_failed_def logger_def
        generate_placeholder_data_def no_api_key_def
        split: prod.splits sum.splits option.splits)
qed

theorem fetcher_catches_request_exceptions_witness:
  "\<not> truthy (api_key offline_collector)
   \<and> (truthy (api_key online_collector)
       \<and> http sample_env (length (http_calls fresh_world))
            (api_get_request online_collector (ascii ''schools/search'') (collect_params kyoto_fu))
          = Inl (RequestException (ascii ''timed out''))
       \<and> is_RequestException (RequestException (ascii ''timed out'')))
   \<and> fst (make_api_request sample_env online_collector (ascii ''schools/search'')
             (collect_params kyoto_fu) fresh_world) = Inr None
   \<and> (http unavailable_env (length (http_calls fresh_world))
            (api_get_request online_collector (ascii ''schools/search'') (collect_params kyoto_fu))
          = Inr \<lparr>status_code = 503, http_error_message = ascii ''503 Server Error'',
                 json_body = Inr JNull\<rparr>
       \<and> (400::nat) \<le> 503 \<and> (503::nat) < 600)
   \<and> fst (make_api_request unavailable_env online_collector (ascii ''schools/search'')
             (collect_params kyoto_fu) fresh_world) = Inr None
   \<and> (http answering_env (length (http_calls fresh_world))
            (api_get_request online_collector (ascii ''schools/search'') (collect_params kyoto_fu))
          = Inr \<lparr>status_code = 200, http_error_message = [],
                 json_body = Inr (JObject [(ascii ''total_schools'', JInt 0)])\<rparr>
       \<and> \<not> ((400::nat) \<le> 200 \<and> (200::nat) < 600))
   \<and> fst (make_api_request answering_env online_collector (ascii ''schools/search'')
             (collect_params kyoto_fu) fresh_world)
       = Inr (Some (Live (JObject [(ascii ''total_schools'', JInt 0)])))
   \<and> \<not> is_RequestException (OtherException (ascii ''maximum recursion depth exceeded''))
   \<and> fst (make_api_request deep_json_env online_collector (ascii ''schools/search'')
             (collect_params kyoto_fu) fresh_world)
       = Inl (OtherException (ascii ''maximum recursion depth exceeded''))
   \<and> fst (process_prefecture sample_env online_collector 3 1 kyoto_fu [] fresh_world)
       = [(kyoto_fu, False)]
   \<and> fst (process_prefecture deep_json_env online_collector 3 1 kyoto_fu [] fresh_world)
       = [(kyoto_fu, False)]"
  using fetcher_catches_request_exceptions
          [where e = sample_env and c = online_collector and ep = "ascii ''schools/search''"
             and ps = "collect_params kyoto_fu" and w = fresh_world
             and ex = "RequestException (ascii ''timed out'')" and p = kyoto_fu and i = 1
             and tot = 3 and rs = "[]"]
        fetcher_catches_request_exceptions
          [where e = unavailable_env and c = online_collector and ep = "ascii ''schools/search''"
             and ps = "collect_params kyoto_fu" and w = fresh_world
             and r = "\<lparr>status_code = 503, http_error_message = ascii ''503 Server Error'',
                        json_body = Inr JNull\<rparr>"]
        fetcher_catches_request_exceptions
          [where e = answering_env and c = online_collector and ep = "ascii ''schools/search''"
             and ps = "collect_params kyoto_fu" and w = fresh_world
             and r = "\<lparr>status_code = 200, http_error_message = [],
                        json_body = Inr (JObject [(ascii ''total_schools'', JInt 0)])\<rparr>"
             and j = "JObject [(ascii ''total_schools'', JInt 0)]"]
        fetcher_catches_request_exceptions
          [where e = deep_json_env and c = online_collector and ep = "ascii ''schools/search''"
             and ps = "collect_params kyoto_fu" and p = kyoto_fu and i = 1
             and tot = 3 and rs = "[]" and w = fresh_world
             and r = "\<lparr>status_code = 200, http_error_message = [],
                        json_body = Inl (OtherException
                                           (ascii ''maximum recursion depth exceeded''))\<rparr>"
             and ex = "OtherException (ascii ''maximum recursion depth exceeded'')"]
  by (simp add: online_collector_def offline_collector_def sample_env_def unavailable_env_def
      answering_env_def deep_json_env_def raise_for_status_def truthy_def ascii_def
      make_api_request_def Let_def api_request_failed_def)

text \<open>
  Against C9 as stated: with a credential configured and a response whose
  \<open>json()\<close> raises \<open>RecursionError\<close>, an exception outside the \<open>RequestException\<close>
  hierarchy, the exception leaves the fetcher.
\<close>

theorem fetcher_raises_other_exception:
  "fst (make_api_request deep_json_env online_collector (ascii ''schools/search'')
          (collect_params tokyo_to) fresh_world)
     = Inl (OtherException (ascii ''maximum recursion depth exceeded''))"
  by (simp add: make_api_request_def deep_json_env_def raise_for_status_def online_collector_def truthy_def
      Let_def api_request_failed_def ascii_def)

text \<open>
  C8, as amended. With no webhook configured the dispatcher returns \<open>True\<close>, the
  message is appended to the log and no request is made. With a webhook configured, a
  transport failure of the POST that is an exception of the class \<open>RequestException\<close>
  (timeout, connection error), and a response of status 4xx or 5xx, are logged and
  answered by \<open>False\<close>, a value. No \<open>RequestException\<close> ever reaches the caller; an
  exception of another class raised by the POST does reach it, unlogged. A response
  of good status is answered by \<open>True\<close>. In every case at most one request is made:
  there is no retry.
\<close>

theorem dispatcher_log_only_and_failure:
  "(\<not> truthy (webhook_url n) \<longrightarrow>
      send_slack_message e n m col w
        = (Inr True, w\<lparr>log_sink := log_sink w @ [(INFO, ascii ''[SLACK NOTIFICATION] '' @ m)]\<rparr>)
      \<and> http_calls (snd (send_slack_message e n m col w)) = http_calls w)
   \<and> (truthy (webhook_url n)
        \<and> (http e (length (http_calls w)) (slack_post_request n m col (now e (clock_reads w)))
              = Inl ex \<and> is_RequestException ex
            \<or> http e (length (http_calls w)) (slack_post_request n m col (now e (clock_reads w)))
              = Inr r \<and> 400 \<le> status_code r \<and> status_code r < 600
              \<and> ex = RequestException (http_error_message r)) \<longrightarrow>
      fst (send_slack_message e n m col w) = Inr False
      \<and> http_calls (snd (send_slack_message e n m col w))
          = http_calls w @ [slack_post_request n m col (now e (clock_reads w))]
      \<and> log_sink (snd (send_slack_message e n m col w))
          = log_sink w @ [(ERROR, ascii ''Failed to send Slack notification: '' @ exn_str ex)])
   \<and> (\<forall>ex'. fst (send_slack_message e n m col w) = Inl ex' \<longrightarrow> \<not> is_RequestException ex')
   \<and> (truthy (webhook_url n)
        \<and> http e (length (http_calls w)) (slack_post_request n m col (now e (clock_reads w)))
              = Inl ex \<and> \<not> is_RequestException ex \<longrightarrow>
      fst (send_slack_message e n m col w) = Inl ex
      \<and> http_calls (snd (send_slack_message e n m col w))
          = http_calls w @ [slack_post_request n m col (now e (clock_reads w))])
   \<and> (truthy (webhook_url n)
        \<and> http e (length (http_calls w)) (slack_post_request n m col (now e (clock_reads w)))
              = Inr r \<and> \<not> (400 \<le> status_code r \<and> status_code r < 600) \<longrightarrow>
      fst (send_slack_message e n m col w) = Inr True
      \<and> http_calls (snd (send_slack_message e n m col w))
          = http_calls w @ [slack_post_request n m col (now e (clock_reads w))]
      \<and> log_sink (snd (send_slack_message e n m col w))
          = log_sink w @ [(INFO, ascii ''Slack notification sent successfully: '' @ take 100 m
                                 @ ascii ''...'')])
   \<and> length (http_calls (snd (send_slack_message e n m col w))) \<le> length (http_calls w) + 1"
  by (auto simp: send_slack_message_def Let_def slack_failed_def logger_def raise_for_status_def
      split: sum.splits option.splits if_splits)

theorem dispatcher_log_only_and_failure_witness:
  "\<not> truthy (webhook_url sample_notifier)
   \<and> send_slack_message sample_env sample_notifier (ascii ''done'') (ascii ''good'') fresh_world
       = (Inr True, fresh_world\<lparr>log_sink := [(INFO, ascii ''[SLACK NOTIFICATION] done'')]\<rparr>)
   \<and> truthy (webhook_url hooked_notifier)
   \<and> http sample_env (length (http_calls fresh_world))
        (slack_post_request hooked_notifier (ascii ''done'') (ascii ''good'')
           (now sample_env (clock_reads fresh_world)))
       = Inl (RequestException (ascii ''timed out''))
   \<and> is_RequestException (RequestException (ascii ''timed out''))
   \<and> fst (send_slack_message sample_env hooked_notifier (ascii ''done'') (ascii ''good'')
             fresh_world) = Inr False
   \<and> length (http_calls (snd (send_slack_message sample_env hooked_notifier (ascii ''done'')
                                 (ascii ''good'') fresh_world))) = 1
   \<and> \<not> is_RequestException (OtherException (ascii ''out of memory''))
   \<and> fst (send_slack_message broken_post_env hooked_notifier (ascii ''done'') (ascii ''good'')
             fresh_world) = Inl (OtherException (ascii ''out of memory''))
   \<and> \<not> ((400::nat) \<le> 200 \<and> (200::nat) < 600)
   \<and> fst (send_slack_message answering_env hooked_notifier (ascii ''done'') (ascii ''good'')
             fresh_world) = Inr True"
  using dispatcher_log_only_and_failure
          [where n = sample_notifier and e = sample_env and m = "ascii ''done''"
             and col = "ascii ''good''" and w = fresh_world]
        dispatcher_log_only_and_failure
          [where n = hooked_notifier and e = sample_env and m = "ascii ''done''"
             and col = "ascii ''good''" and w = fresh_world
             and ex = "RequestException (ascii ''timed out'')"]
        dispatcher_log_only_and_failure
          [where n = hooked_notifier and e = broken_post_env and m = "ascii ''done''"
             and col = "ascii ''good''" and w = fresh_world
             and ex = "OtherException (ascii ''out of memory'')"]
        dispatcher_log_only_and_failure
          [where n = hooked_notifier and e = answering_env and m = "ascii ''done''"
             and col = "ascii ''good''" and w = fresh_world
             and r = "\<lparr>status_code = 200, http_error_message = [],
                        json_body = Inr (JObject [(ascii ''total_schools'', JInt 0)])\<rparr>"]
  by (simp add: sample_notifier_def hooked_notifier_def sample_env_def broken_post_env_def
      answering_env_def fresh_world_def truthy_def ascii_def)

text \<open>
  Against C8 as stated: with a webhook configured and a POST that raises an exception
  outside the \<open>RequestException\<close> hierarchy, the dispatcher does not return
  \<open>False\<close>: the exception reaches the caller.
\<close>

theorem dispatcher_raises_other_exception:
  "truthy (webhook_url hooked_notifier)
   \<and> fst (send_slack_message broken_post_env hooked_notifier (ascii ''done'') (ascii ''good'')
            fresh_world)
     = Inl (OtherException (ascii ''out of memory''))"
  by (simp add: send_slack_message_def broken_post_env_def hooked_notifier_def truthy_def
      Let_def slack_failed_def ascii_def)

section \<open>The summary\<close>

lemma build_summary_nonempty:
  assumes "rs \<noteq> []"
  shows "build_summary c rs t =
           Inr \<lparr>summary_collection_date = isoformat t,
                total_prefectures = int (length rs),
                successful_collections = int (length (filter (\<lambda>success. success) (map snd rs))),
                failed_collections =
                  int (length rs) - int (length (filter (\<lambda>success. success) (map snd rs))),
                success_rate =
                  format_1f (float_mul (round_double
                     (of_int (int (length (filter (\<lambda>success. success) (map snd rs))))
                      / of_int (int (length rs)))) 100) @ ascii ''%'',
                results = rs,
                output_directory = output_dir c,
                api_status = (if truthy (api_key c) then ascii ''connected''
                              else ascii ''placeholder_mode'')\<rparr>"
proof -
  have "0 < int (length rs)" using assms by simp
  moreover have "int (length (filter (\<lambda>success. success) (map snd rs))) \<le> int (length rs)"
    using length_filter_le [of "\<lambda>success. success" "map snd rs"] by simp
  ultimately show ?thesis
    using format_success_rate_defined(1)
            [of "int (length (filter (\<lambda>success. success) (map snd rs)))" "int (length rs)"]
    by (simp add: build_summary_def Let_def)
qed

lemma collect_all_length:
  "length (fst (collect_all_prefectures e c w)) = card (set (prefectures c))"
proof -
  have "distinct (map fst (fst (collect_all_prefectures e c w)))"
    by (simp add: collect_all_prefectures_def Let_def collect_loop_distinct)
  then have "card (set (map fst (fst (collect_all_prefectures e c w))))
               = length (map fst (fst (collect_all_prefectures e c w)))"
    by (rule distinct_card)
  moreover have "set (map fst (fst (collect_all_prefectures e c w))) = set (prefectures c)"
    by (simp only: collect_all_prefectures_def Let_def collect_loop_set) simp
  ultimately show ?thesis by simp
qed

text \<open>The example of the specification: 47 successes of 47.\<close>

lemma success_rate_47_of_47: "format_success_rate 47 47 = Inr (ascii ''100.0%'')"
  by code_simp

lemma success_rate_2_of_3: "format_success_rate 2 3 = Inr (ascii ''66.7%'')"
  by code_simp

text \<open>
  C1, as amended. For the empty outcome mapping \<open>generate_summary_report\<close> raises
  \<open>ZeroDivisionError\<close> and writes no file: the source has no guard for a zero total.
  For every non-empty outcome mapping the percentage is computed, without an exception.
\<close>

theorem summary_rate_defined_when_nonempty:
  "(rs = [] \<longrightarrow>
      fst (generate_summary_report e c rs w) = Inl ZeroDivisionError
      \<and> files (snd (generate_summary_report e c rs w)) = files w)
   \<and> (rs \<noteq> [] \<longrightarrow>
      (\<exists>rate. format_success_rate (int (length (filter (\<lambda>success. success) (map snd rs))))
                 (int (length rs)) = Inr rate))"
proof (rule conjI; rule impI)
  assume "rs = []"
  then show "fst (generate_summary_report e c rs w) = Inl ZeroDivisionError
      \<and> files (snd (generate_summary_report e c rs w)) = files w"
    by (simp add: generate_summary_report_def build_summary_def format_success_rate_def
        py_true_div_def Let_def)
next
  assume ne: "rs \<noteq> []"
  have "0 < int (length rs)" using ne by simp
  moreover have "int (length (filter (\<lambda>success. success) (map snd rs))) \<le> int (length rs)"
    using length_filter_le [of "\<lambda>success. success" "map snd rs"] by simp
  ultimately show "\<exists>rate. format_success_rate
                 (int (length (filter (\<lambda>success. success) (map snd rs))))
                 (int (length rs)) = Inr rate"
    using format_success_rate_defined(1)
            [of "int (length (filter (\<lambda>success. success) (map snd rs)))" "int (length rs)"]
    by simp
qed

theorem summary_rate_defined_when_nonempty_witness:
  "fst (generate_summary_report sample_env offline_collector [] fresh_world)
     = Inl ZeroDivisionError
   \<and> files (snd (generate_summary_report sample_env offline_collector [] fresh_world)) = []
   \<and> [(hokkaido, True), (kyoto_fu, False)] \<noteq> []
   \<and> (\<exists>rate. format_success_rate 1 2 = Inr rate)"
  using summary_rate_defined_when_nonempty [of "[]" sample_env offline_collector fresh_world]
        summary_rate_defined_when_nonempty
          [of "[(hokkaido, True), (kyoto_fu, False)]" sample_env offline_collector fresh_world]
  by (simp add: fresh_world_def)

text \<open>
  Against C1 as stated: on the empty outcome mapping the Summary Writer does not
  produce a summary with a zero rate, it raises \<open>ZeroDivisionError\<close>, having read the
  clock and written nothing.
\<close>

theorem summary_of_empty_mapping_raises:
  "generate_summary_report sample_env offline_collector [] fresh_world
     = (Inl ZeroDivisionError, fresh_world\<lparr>clock_reads := 1\<rparr>)"
  by (simp add: generate_summary_report_def build_summary_def format_success_rate_def
      py_true_div_def Let_def fresh_world_def)

text \<open>
  C6. For every non-empty outcome mapping, so for every mapping the orchestrator
  produces from a non-empty Region list, the summary is built and
  \<open>successful_collections + failed_collections = total_prefectures\<close>, the total
  being the number of entries (the number of Regions, for a mapping of the
  orchestrator: 47 for the collector as \<open>__init__\<close> builds it) and the successes the
  number of \<open>True\<close> entries. \<open>success_rate\<close> is
  the float \<open>successful / total * 100\<close> in the format \<open>.1f\<close> followed by the percent
  sign: digits, a point, exactly one digit, the percent sign; and the number those
  digits denote differs from the exact quotient \<open>100 * successful / total\<close> by at most
  half a unit of the decimal place, \<open>0.05\<close>, and the error of the two float
  operations, below \<open>2^-45\<close>. When the write succeeds that summary is the content of
  the summary file.
\<close>

theorem summary_counts_add_up:
  "rs \<noteq> [] \<Longrightarrow>
   (\<exists>s. build_summary c rs t = Inr s
     \<and> successful_collections s + failed_collections s = total_prefectures s
     \<and> total_prefectures s = int (length rs)
     \<and> successful_collections s = int (length (filter (\<lambda>success. success) (map snd rs)))
     \<and> success_rate s
         = format_1f (float_mul (round_double (of_int (successful_collections s)
                                               / of_int (total_prefectures s))) 100)
           @ ascii ''%''
     \<and> (\<exists>ds d. success_rate s = ds @ ascii ''.'' @ [d] @ ascii ''%''
           \<and> ds \<noteq> [] \<and> (\<forall>c \<in> set ds. 48 \<le> c \<and> c \<le> 57) \<and> 48 \<le> d \<and> d \<le> 57
           \<and> \<bar>of_nat (read_digits ds) + of_nat (d - 48) / 10
                - 100 * of_int (successful_collections s)
                  / (of_int (total_prefectures s) :: rat)\<bar> \<le> 1 / 20 + 1 / 2 ^ 45)
     \<and> (file_write e (write_attempts w)
            (path_join (output_dir c) (ascii ''collection_summary.json'')) = Written
          \<and> t = now e (clock_reads w) \<longrightarrow>
          fst (generate_summary_report e c rs w) = Inr ()
          \<and> map_of (files (snd (generate_summary_report e c rs w)))
               (path_join (output_dir c) (ascii ''collection_summary.json''))
             = Some (SummaryFile s)))
   \<and> (rs = fst (collect_all_prefectures e c w0) \<longrightarrow>
        length rs = card (set (prefectures c)))
   \<and> length (fst (collect_all_prefectures e (init_collector getenv) w0)) = 47"
proof -
  assume ne: "rs \<noteq> []"
  define k where "k = int (length (filter (\<lambda>success. success) (map snd rs)))"
  define rate where
    "rate = format_1f (float_mul (round_double (of_int k / of_int (int (length rs)))) 100)
            @ ascii ''%''"
  define s where
    "s = \<lparr>summary_collection_date = isoformat t,
          total_prefectures = int (length rs),
          successful_collections = k,
          failed_collections = int (length rs) - k,
          success_rate = rate,
          results = rs,
          output_directory = output_dir c,
          api_status = (if truthy (api_key c) then ascii ''connected''
                        else ascii ''placeholder_mode'')\<rparr>"
  have pos: "0 < int (length rs)" using ne by simp
  have le: "k \<le> int (length rs)"
    unfolding k_def using length_filter_le [of "\<lambda>success. success" "map snd rs"] by simp
  have k0: "0 \<le> k" by (simp add: k_def)
  have bs: "build_summary c rs t = Inr s"
    using build_summary_nonempty [OF ne, of c t] by (simp add: s_def rate_def k_def)
  have shape: "\<exists>ds d. success_rate s = ds @ ascii ''.'' @ [d] @ ascii ''%''
           \<and> ds \<noteq> [] \<and> (\<forall>c \<in> set ds. 48 \<le> c \<and> c \<le> 57) \<and> 48 \<le> d \<and> d \<le> 57
           \<and> \<bar>of_nat (read_digits ds) + of_nat (d - 48) / 10
                - 100 * of_int (successful_collections s)
                  / (of_int (total_prefectures s) :: rat)\<bar> \<le> 1 / 20 + 1 / 2 ^ 45"
    using format_success_rate_accurate [OF k0 le pos]
      format_success_rate_defined(1) [OF k0 le pos]
    by (simp add: s_def rate_def)
  have written: "fst (generate_summary_report e c rs w) = Inr ()
          \<and> map_of (files (snd (generate_summary_report e c rs w)))
               (path_join (output_dir c) (ascii ''collection_summary.json''))
             = Some (SummaryFile s)"
    if "file_write e (write_attempts w)
          (path_join (output_dir c) (ascii ''collection_summary.json'')) = Written
        \<and> t = now e (clock_reads w)"
  proof -
    have "build_summary c rs (now e (clock_reads w)) = Inr s" using bs that by simp
    then show ?thesis
      using that by (simp add: generate_summary_report_def Let_def logger_def update_conv')
  qed
  have "successful_collections s + failed_collections s = total_prefectures s"
    and "total_prefectures s = int (length rs)"
    and "successful_collections s = int (length (filter (\<lambda>success. success) (map snd rs)))"
    and "success_rate s
         = format_1f (float_mul (round_double (of_int (successful_collections s)
                                               / of_int (total_prefectures s))) 100)
           @ ascii ''%''"
    by (simp_all add: s_def rate_def k_def)
  moreover have "length (fst (collect_all_prefectures e (init_collector getenv) w0)) = 47"
    using collect_all_length [of e "init_collector getenv" w0]
      distinct_card [OF japan_prefectures_distinct]
    by (simp add: init_collector_def japan_prefectures_length)
  ultimately show ?thesis
    using bs shape written collect_all_length [of e c w0] by blast
qed

theorem summary_counts_add_up_witness:
  "[(hokkaido, True), (tokyo_to, True), (kyoto_fu, False)] \<noteq> []
   \<and> (\<exists>s. build_summary offline_collector [(hokkaido, True), (tokyo_to, True), (kyoto_fu, False)]
             (now sample_env 0) = Inr s
         \<and> successful_collections s + failed_collections s = total_prefectures s
         \<and> total_prefectures s = 3
         \<and> successful_collections s = 2
         \<and> failed_collections s = 1
         \<and> success_rate s = ascii ''66.7%'')"
proof -
  define rs where "rs = [(hokkaido, True), (tokyo_to, True), (kyoto_fu, False)]"
  have ne: "rs \<noteq> []" by (simp add: rs_def)
  obtain s where s: "build_summary offline_collector rs (now sample_env 0) = Inr s"
    and sum: "successful_collections s + failed_collections s = total_prefectures s"
    and tot: "total_prefectures s = int (length rs)"
    and suc: "successful_collections s = int (length (filter (\<lambda>success. success) (map snd rs)))"
    and rate: "success_rate s
         = format_1f (float_mul (round_double (of_int (successful_collections s)
                                               / of_int (total_prefectures s))) 100)
           @ ascii ''%''"
    using summary_counts_add_up
            [OF ne, where c = offline_collector and t = "now sample_env 0" and e = sample_env
               and w = fresh_world and ?w0.0 = fresh_world and getenv = "\<lambda>v. None"]
    by blast
  have tot3: "total_prefectures s = 3" and suc2: "successful_collections s = 2"
    using tot suc by (simp_all add: rs_def)
  have "format_success_rate 2 3
          = Inr (format_1f (float_mul (round_double (of_int 2 / of_int 3)) 100) @ ascii ''%'')"
    by (rule format_success_rate_defined(1)) simp_all
  then have "success_rate s = ascii ''66.7%''"
    using success_rate_2_of_3 rate by (simp add: tot3 suc2)
  with s sum tot3 suc2 ne show ?thesis unfolding rs_def by auto
qed

section \<open>The severity of a completion notice\<close>

text \<open>
  C7, as amended. For a failure count \<open>f\<close> and a total count \<open>n\<close> below \<open>2^53\<close> in
  magnitude, where halving an integer in floating point is exact, the status is
  \<open>success\<close> if \<open>f = 0\<close>, \<open>warning\<close> if \<open>0 < f < n / 2\<close>, \<open>error\<close> otherwise, that is
  if \<open>f \<ge> n / 2\<close>; the colours are \<open>good\<close>, \<open>warning\<close>, \<open>danger\<close>, and
  \<open>notify_deepresearch_completion\<close> dispatches with that status and colour.
\<close>

theorem completion_severity_thresholds:
  "\<bar>n\<bar> < 2 ^ 53 \<Longrightarrow>
   (f = 0 \<longrightarrow> completion_status f n = Inr (ascii ''success'')
              \<and> completion_color (ascii ''success'') = ascii ''good'')
   \<and> (0 < f \<and> (of_int f :: rat) < of_int n / 2 \<longrightarrow>
         completion_status f n = Inr (ascii ''warning'')
         \<and> completion_color (ascii ''warning'') = ascii ''warning'')
   \<and> (0 < f \<and> (of_int n :: rat) / 2 \<le> of_int f \<longrightarrow>
         completion_status f n = Inr (ascii ''error'')
         \<and> completion_color (ascii ''error'') = ascii ''danger'')
   \<and> (r_failed_collections r = Some f \<and> r_total_prefectures r = Some n \<longrightarrow>
        (\<exists>st. completion_status f n = Inr st
           \<and> notify_deepresearch_completion e nt r w
               = send_slack_message e nt
                   (completion_message st n
                      (case r_successful_collections r of None \<Rightarrow> 0 | Some v \<Rightarrow> v) f
                      (case r_success_rate r of None \<Rightarrow> ascii ''0%'' | Some v \<Rightarrow> v)
                      (case r_collection_date r of None \<Rightarrow> ascii ''Unknown'' | Some v \<Rightarrow> v)
                      (case r_api_status r of None \<Rightarrow> ascii ''Unknown'' | Some v \<Rightarrow> v))
                   (completion_color st) w))"
  by (auto simp: completion_status_cases completion_color_def ascii_def
      notify_deepresearch_completion_def Let_def)

theorem completion_severity_thresholds_witness:
  "\<bar>47::int\<bar> < 2 ^ 53 \<and> (0::int) < 23 \<and> (of_int 23 :: rat) < of_int 47 / 2
   \<and> completion_status 23 47 = Inr (ascii ''warning'')
   \<and> (of_int 47 :: rat) / 2 \<le> of_int 24
   \<and> completion_status 24 47 = Inr (ascii ''error'')
   \<and> completion_status 0 47 = Inr (ascii ''success'')
   \<and> completion_color (ascii ''error'') = ascii ''danger''"
  using completion_severity_thresholds [where f = 23 and n = 47]
        completion_severity_thresholds [where f = 24 and n = 47]
        completion_severity_thresholds [where f = 0 and n = 47]
  by simp

text \<open>
  Against C7 as stated: for the failure count \<open>2^52\<close> and the total \<open>2^53 + 1\<close> the
  failures are fewer than half of the total, yet the float quotient \<open>total / 2\<close> is
  rounded to \<open>2^52\<close> before the comparison and the status is \<open>error\<close>, not \<open>warning\<close>.
\<close>

theorem completion_status_rounded_half:
  "(0::int) < 2 ^ 52 \<and> (of_int (2 ^ 52) :: rat) < of_int (2 ^ 53 + 1) / 2
   \<and> completion_status (2 ^ 52) (2 ^ 53 + 1) = Inr (ascii ''error'')"
  by code_simp

section \<open>The sample runs, evaluated\<close>

text \<open>
  Without a credential the three sample Regions are synthesized and saved; with a
  credential and an API that times out each of them is recorded as failed.
\<close>

lemma sample_run_offline:
  "fst (collect_all_prefectures sample_env offline_collector fresh_world)
     = [(hokkaido, True), (tokyo_to, True), (kyoto_fu, True)]"
  by (simp add: collect_all_prefectures_def offline_collector_def process_prefecture_def
      collect_prefecture_data_def make_api_request_def truthy_def generate_placeholder_data_def
      save_prefecture_data_def sample_env_def opt_truthy_def Let_def
      hokkaido_def tokyo_to_def kyoto_fu_def)

lemma sample_run_online:
  "fst (collect_all_prefectures sample_env online_collector fresh_world)
     = [(hokkaido, False), (tokyo_to, False), (kyoto_fu, False)]"
  by (simp add: collect_all_prefectures_def offline_collector_def online_collector_def
      process_prefecture_def collect_prefecture_data_def make_api_request_def truthy_def
      api_request_failed_def sample_env_def opt_truthy_def Let_def ascii_def
      hokkaido_def tokyo_to_def kyoto_fu_def)

end
